theory Spec2Isabelle
  imports Main "HOL-Library.Word"
begin

section \<open>The call-trace parse engine (syzygy/trace/parse/parse\_engine.cc)\<close>

text \<open>
  A shallow embedding of \<^verbatim>\<open>ParseEngine\<close>: the per-process module spaces
  (\<^verbatim>\<open>AddModuleInformation\<close>, \<^verbatim>\<open>RemoveModuleInformation\<close>,
  \<^verbatim>\<open>RemoveProcessInformation\<close>, \<^verbatim>\<open>GetModuleInformation\<close>) and the event
  dispatcher (\<^verbatim>\<open>DispatchEvent\<close> and the per-kind dispatchers).

  The engine is a class with mutable members; every member function becomes a function
  from the engine's state to its result and the new state. The event handler is a sink of
  void callbacks: the state records the sequence of callbacks it has received.
  \<^verbatim>\<open>DCHECK\<close>s are debug-build assertions and \<^verbatim>\<open>LOG\<close> lines go to the process-wide
  log; neither is part of the state.

  The code targets 32-bit Windows (a module base pointer is cast to \<^verbatim>\<open>uint32_t\<close>):
  \<^verbatim>\<open>DWORD\<close>, \<^verbatim>\<open>ULONG\<close>, \<^verbatim>\<open>size_t\<close> and pointers are 32-bit words.
\<close>

subsection \<open>Module information\<close>

type_synonym DWORD = "32 word"
type_synonym size_t = "32 word"
type_synonym AbsoluteAddress64 = "64 word"

text \<open>
  \<^verbatim>\<open>ModuleInformation\<close> is declared outside parse\_engine.cc; its fields are the five the
  engine reads and writes. \<^verbatim>\<open>AnnotatedModuleInformation\<close> derives from it and adds
  \<^verbatim>\<open>is_dirty\<close>.
\<close>

record ModuleInformation =
  base_address :: AbsoluteAddress64
  module_size :: "64 word"
  path :: string
  module_checksum :: DWORD
  module_time_date_stamp :: DWORD

record AnnotatedModuleInformation = ModuleInformation +
  is_dirty :: bool

text \<open>The converting constructor \<^verbatim>\<open>AnnotatedModuleInformation(module_info)\<close>: a copy that is
  not dirty.\<close>

definition annotate :: "ModuleInformation \<Rightarrow> AnnotatedModuleInformation" where
  "annotate mi =
     \<lparr>base_address = base_address mi, module_size = module_size mi, path = path mi,
      module_checksum = module_checksum mi,
      module_time_date_stamp = module_time_date_stamp mi, is_dirty = False\<rparr>"

text \<open>The upcast \<^verbatim>\<open>const ModuleInformation*\<close> of a stored entry.\<close>

definition as_ModuleInformation :: "AnnotatedModuleInformation \<Rightarrow> ModuleInformation" where
  "as_ModuleInformation v =
     \<lparr>base_address = base_address v, module_size = module_size v, path = path v,
      module_checksum = module_checksum v,
      module_time_date_stamp = module_time_date_stamp v\<rparr>"

subsection \<open>The interval map (ModuleSpace)\<close>

text \<open>
  \<^verbatim>\<open>ModuleSpace\<close> is an instance of the address-space template of syzygy/core, whose
  source is not part of this development. Its operations are modelled from the
  specification (section 4.B).
\<close>

text \<open>Modelled from the spec: \<^verbatim>\<open>ModuleSpace::Range\<close>, the half-open interval
  \<open>[base, base + size)\<close> of section 3, built from a start address and a size.\<close>

datatype Range = Range (range_start: nat) (range_size: nat)

definition range_end :: "Range \<Rightarrow> nat" where
  "range_end r = range_start r + range_size r"

text \<open>Modelled from the spec: half-open overlap of two ranges (section 4.B, "Overlap is
  half-open").\<close>

definition intersects :: "Range \<Rightarrow> Range \<Rightarrow> bool" where
  "intersects a b \<longleftrightarrow> range_start a < range_end b \<and> range_start b < range_end a"

text \<open>Modelled from the spec: the sort order of the map, by \<open>(base, end)\<close>
  (section 4.B).\<close>

definition range_less :: "Range \<Rightarrow> Range \<Rightarrow> bool" where
  "range_less a b \<longleftrightarrow>
     range_start a < range_start b \<or> (range_start a = range_start b \<and> range_end a < range_end b)"

text \<open>
  The map is the list of its entries in key order. An iterator is the key of the entry it
  points to; \<^verbatim>\<open>end()\<close> is \<open>None\<close>; dereferencing reads the map.
\<close>

type_synonym ModuleSpace = "(Range \<times> AnnotatedModuleInformation) list"

definition deref :: "ModuleSpace \<Rightarrow> Range \<Rightarrow> AnnotatedModuleInformation option" where
  "deref ms it = map_of ms it"

text \<open>Modelled from the spec: \<^verbatim>\<open>find_first_intersection(range)\<close> "returns the first stored
  range that overlaps \<open>range\<close> in sort order" (section 4.B).\<close>

fun FindFirstIntersection :: "ModuleSpace \<Rightarrow> Range \<Rightarrow> Range option" where
  "FindFirstIntersection [] r = None"
| "FindFirstIntersection ((k, v) # ms) r =
     (if intersects k r then Some k else FindFirstIntersection ms r)"

text \<open>Modelled from the spec: the insertion that \<^verbatim>\<open>find_or_insert\<close> makes, at the place
  of the new key in the sort order.\<close>

fun insert_entry ::
  "Range \<Rightarrow> AnnotatedModuleInformation \<Rightarrow> ModuleSpace \<Rightarrow> ModuleSpace" where
  "insert_entry r item [] = [(r, item)]"
| "insert_entry r item ((k, v) # ms) =
     (if range_less r k then (r, item) # (k, v) # ms else (k, v) # insert_entry r item ms)"

text \<open>Modelled from the spec: \<^verbatim>\<open>find_or_insert(range, value)\<close>: "if no live entry overlaps,
  inserts and returns (new\_entry, true); otherwise returns (existing\_overlapping\_entry,
  false)" (section 4.B). The interval map does not look into its values, and
  \<^verbatim>\<open>AddModuleInformation\<close> tests the returned entry for \<^verbatim>\<open>is_dirty\<close>: every stored entry
  counts as an overlapping one, dirty or not. The result is the success flag, the map and
  the iterator \<^verbatim>\<open>*ret_it\<close>.\<close>

definition FindOrInsert ::
  "ModuleSpace \<Rightarrow> Range \<Rightarrow> AnnotatedModuleInformation \<Rightarrow> bool \<times> ModuleSpace \<times> Range" where
  "FindOrInsert ms r item =
     (case FindFirstIntersection ms r of
        None \<Rightarrow> (True, insert_entry r item ms, r)
      | Some k \<Rightarrow> (False, ms, k))"

text \<open>Modelled from the spec: \<^verbatim>\<open>remove(range)\<close> "removes the exact range; no-op if
  absent" (section 4.B).\<close>

definition Remove :: "ModuleSpace \<Rightarrow> Range \<Rightarrow> ModuleSpace" where
  "Remove ms r = filter (\<lambda>kv. fst kv \<noteq> r) ms"

text \<open>The assignment \<^verbatim>\<open>it->second.is_dirty = true\<close> through an iterator.\<close>

definition set_dirty :: "Range \<Rightarrow> ModuleSpace \<Rightarrow> ModuleSpace" where
  "set_dirty it ms = map (\<lambda>kv. if fst kv = it then (fst kv, (snd kv)\<lparr>is_dirty := True\<rparr>) else kv) ms"

subsection \<open>Trace records (call\_trace\_defs.h)\<close>

text \<open>
  The payload structures, their sizes and field offsets, the event-type codes and the class
  GUID are declared in call\_trace\_defs.h, whose source is not part of this development.
  The sizes, offsets and the GUID are therefore parameters of the dispatcher, collected in
  one record; every general theorem below holds for all their values.
  \<open>offsetof_TraceIndexedFrequencyData_frequency_data\<close> is not used by the engine; it
  is there for the specification's formula of the expected length.
\<close>

type_synonym GUID = "128 word"

record trace_defs =
  kCallTraceEventClass :: GUID
  sizeof_TraceEnterExitEventData :: size_t
  offsetof_TraceBatchEnterData_calls :: size_t
  sizeof_TraceBatchEnterData_call :: size_t
  sizeof_InvocationInfo :: size_t
  sizeof_TraceModuleData :: size_t
  sizeof_TraceIndexedFrequencyData :: size_t
  offsetof_TraceIndexedFrequencyData_frequency_data :: size_t
  offsetof_TraceDynamicSymbol_symbol_name :: size_t
  sizeof_TraceSampleData :: size_t
  offsetof_TraceSampleData_buckets :: size_t
  sizeof_TraceSampleData_bucket :: size_t
  sizeof_TraceFunctionNameTableEntry :: size_t
  offsetof_TraceFunctionNameTableEntry_name :: size_t
  sizeof_TraceStackTrace :: size_t
  offsetof_TraceStackTrace_frames :: size_t
  sizeof_TraceDetailedFunctionCall :: size_t
  offsetof_TraceDetailedFunctionCall_argument_data :: size_t
  sizeof_TraceComment :: size_t
  offsetof_TraceComment_comment :: size_t
  sizeof_TraceProcessHeap :: size_t

text \<open>
  The event types named in the switch of \<^verbatim>\<open>DispatchEvent\<close>; \<open>TRACE_UNLISTED\<close> stands for
  every other type code (the \<^verbatim>\<open>default\<close> branch).
\<close>

datatype TraceEventType =
    TRACE_ENTER_EVENT
  | TRACE_EXIT_EVENT
  | TRACE_BATCH_ENTER
  | TRACE_PROCESS_ATTACH_EVENT
  | TRACE_PROCESS_DETACH_EVENT
  | TRACE_THREAD_ATTACH_EVENT
  | TRACE_THREAD_DETACH_EVENT
  | TRACE_PROCESS_ENDED
  | TRACE_MODULE_EVENT
  | TRACE_BATCH_INVOCATION
  | TRACE_THREAD_NAME
  | TRACE_INDEXED_FREQUENCY
  | TRACE_DYNAMIC_SYMBOL
  | TRACE_SAMPLE_DATA
  | TRACE_FUNCTION_NAME_TABLE_ENTRY
  | TRACE_STACK_TRACE
  | TRACE_DETAILED_FUNCTION_CALL
  | TRACE_COMMENT
  | TRACE_PROCESS_HEAP
  | TRACE_UNLISTED nat

text \<open>
  A payload structure is modelled by the fields the engine reads through the typed pointer
  it obtains from the buffer reader. \<open>calls_function i\<close> is \<^verbatim>\<open>calls[i].function\<close>;
  \<open>module_name_chars\<close> is the string in the array \<^verbatim>\<open>module_name\<close>.
  Structures of which the engine reads no field (\<^verbatim>\<open>TraceEnterExitEventData\<close>,
  \<^verbatim>\<open>TraceBatchInvocationInfo\<close>, \<^verbatim>\<open>TraceProcessHeap\<close>) have no record.
\<close>

record TraceBatchEnterData =
  thread_id :: DWORD
  num_calls :: size_t
  calls_function :: "nat \<Rightarrow> 32 word"

record TraceModuleData =
  module_base_addr :: "32 word"
  module_base_size :: size_t
  module_checksum :: DWORD
  module_time_date_stamp :: DWORD
  module_name_chars :: string

record TraceIndexedFrequencyData =
  frequency_size :: "32 word"
  num_entries :: "32 word"

record TraceDynamicSymbol =
  symbol_id :: "32 word"

record TraceSampleData =
  bucket_count :: "32 word"

record TraceFunctionNameTableEntry =
  name_length :: "32 word"

record TraceStackTrace =
  num_frames :: "32 word"

record TraceDetailedFunctionCall =
  argument_data_size :: "32 word"

record TraceComment =
  comment_size :: "32 word"

text \<open>
  The payload \<^verbatim>\<open>MofData\<close> of an event is a byte buffer that each dispatcher reinterprets
  as the structure of its event type. The model keeps the payload as these typed views,
  one per structure, together with its bytes as characters for the string reads.
\<close>

record mof_data =
  as_TraceBatchEnterData :: TraceBatchEnterData
  as_TraceModuleData :: TraceModuleData
  as_TraceIndexedFrequencyData :: TraceIndexedFrequencyData
  as_TraceDynamicSymbol :: TraceDynamicSymbol
  as_TraceSampleData :: TraceSampleData
  as_TraceFunctionNameTableEntry :: TraceFunctionNameTableEntry
  as_TraceStackTrace :: TraceStackTrace
  as_TraceDetailedFunctionCall :: TraceDetailedFunctionCall
  as_TraceComment :: TraceComment
  as_chars :: string

text \<open>\<^verbatim>\<open>EVENT_TRACE\<close>, with the fields of \<^verbatim>\<open>Header\<close> the engine reads. \<open>Header_Class_Type\<close>
  is the type code after the cast to \<^verbatim>\<open>TraceEventType\<close>.\<close>

record EVENT_TRACE =
  Header_Guid :: GUID
  Header_Class_Type :: TraceEventType
  Header_ProcessId :: DWORD
  Header_ThreadId :: DWORD
  Header_TimeStamp :: "64 word"
  MofLength :: "32 word"
  MofData :: mof_data

subsection \<open>The buffer reader\<close>

text \<open>
  The source of \<^verbatim>\<open>BinaryBufferReader\<close> (syzygy/common/buffer\_parser.h) is not part of
  this development; the reader is modelled from the specification (section 4.A) as a cursor
  over a buffer of known length.
\<close>

record BinaryBufferReader =
  data_len :: nat
  pos :: nat

text \<open>Modelled from the spec: the constructor \<^verbatim>\<open>BinaryBufferReader(data, data_len)\<close>, "a
  cursor over a contiguous byte slice of known length".\<close>

definition new_reader :: "32 word \<Rightarrow> BinaryBufferReader" where
  "new_reader len = \<lparr>data_len = unat len, pos = 0\<rparr>"

text \<open>Modelled from the spec: \<^verbatim>\<open>read_fixed(n)\<close> "advances the cursor by n; fails if fewer
  than n bytes remain". \<open>None\<close> is the failure.\<close>

definition Read :: "BinaryBufferReader \<Rightarrow> size_t \<Rightarrow> BinaryBufferReader option" where
  "Read rd n =
     (if unat n \<le> data_len rd - pos rd then Some (rd\<lparr>pos := pos rd + unat n\<rparr>) else None)"

text \<open>Modelled from the spec: \<^verbatim>\<open>consume(n)\<close> "advances without returning data" and
  fails if the record is truncated.\<close>

definition Consume :: "BinaryBufferReader \<Rightarrow> size_t \<Rightarrow> BinaryBufferReader option" where
  "Consume rd n =
     (if unat n \<le> data_len rd - pos rd then Some (rd\<lparr>pos := pos rd + unat n\<rparr>) else None)"

text \<open>Modelled from the spec: \<^verbatim>\<open>read_string()\<close> for a NUL-terminated string (section 6:
  the thread name and the symbol name are NUL-terminated): the characters from the cursor
  up to the first NUL inside the buffer; it fails when there is none. The result is the
  string and the reader behind the NUL.\<close>

definition ReadString :: "BinaryBufferReader \<Rightarrow> string \<Rightarrow> (string \<times> BinaryBufferReader) option" where
  "ReadString rd bytes =
     (let rest = take (data_len rd - pos rd) (drop (pos rd) bytes);
          str = takeWhile (\<lambda>c. c \<noteq> CHR 0x00) rest
      in if length str < length rest
         then Some (str, rd\<lparr>pos := pos rd + length str + 1\<rparr>)
         else None)"

subsection \<open>The engine state\<close>

text \<open>
  The handler callbacks the engine makes. The time stamp is the raw 64-bit file time of the
  event header (its conversion to \<^verbatim>\<open>base::Time\<close> is outside the engine). A callback that
  receives a pointer to a structure without a record above is modelled without it.
\<close>

datatype callback =
    OnFunctionEntry "64 word" DWORD DWORD
  | OnFunctionExit "64 word" DWORD DWORD
  | OnBatchFunctionEntry "64 word" DWORD DWORD TraceBatchEnterData
  | OnProcessAttach "64 word" DWORD DWORD TraceModuleData
  | OnProcessDetach "64 word" DWORD DWORD TraceModuleData
  | OnThreadAttach "64 word" DWORD DWORD TraceModuleData
  | OnThreadDetach "64 word" DWORD DWORD TraceModuleData
  | OnProcessEnded "64 word" DWORD
  | OnInvocationBatch "64 word" DWORD DWORD size_t
  | OnThreadName "64 word" DWORD DWORD string
  | OnIndexedFrequency "64 word" DWORD DWORD TraceIndexedFrequencyData
  | OnDynamicSymbol DWORD "32 word" string
  | OnSampleData "64 word" DWORD TraceSampleData
  | OnFunctionNameTableEntry "64 word" DWORD TraceFunctionNameTableEntry
  | OnStackTrace "64 word" DWORD TraceStackTrace
  | OnDetailedFunctionCall "64 word" DWORD DWORD TraceDetailedFunctionCall
  | OnComment "64 word" DWORD TraceComment
  | OnProcessHeap "64 word" DWORD

text \<open>
  The members of \<^verbatim>\<open>ParseEngine\<close>. \<open>event_handler\<close> is the bound handler, represented by
  the callbacks it has received, oldest first. \<open>processes\<close> is the \<^verbatim>\<open>ProcessMap\<close>.
\<close>

record ParseEngine =
  name :: string
  event_handler :: "callback list"
  error_occurred :: bool
  fail_on_module_conflict :: bool
  processes :: "DWORD \<rightharpoonup> ModuleSpace"

text \<open>The constructor, followed by \<^verbatim>\<open>set_event_handler\<close> with a handler that has received
  nothing yet.\<close>

definition new_ParseEngine :: "string \<Rightarrow> bool \<Rightarrow> ParseEngine" where
  "new_ParseEngine nm fail =
     \<lparr>name = nm, event_handler = [], error_occurred = False,
      fail_on_module_conflict = fail, processes = Map.empty\<rparr>"

text \<open>A callback on the handler.\<close>

definition call_handler :: "callback \<Rightarrow> ParseEngine \<Rightarrow> ParseEngine" where
  "call_handler c s = s\<lparr>event_handler := event_handler s @ [c]\<rparr>"

subsection \<open>Module tracking\<close>

text \<open>\<^verbatim>\<open>processes_[process_id]\<close>: the module space of the process, created empty when the
  process id is not in the map yet.\<close>

definition processes_at :: "ParseEngine \<Rightarrow> DWORD \<Rightarrow> ModuleSpace" where
  "processes_at s pid = (case processes s pid of None \<Rightarrow> [] | Some ms \<Rightarrow> ms)"

text \<open>Writing the module space of a process back into the engine.\<close>

definition store_space :: "DWORD \<Rightarrow> ModuleSpace \<Rightarrow> ParseEngine \<Rightarrow> ParseEngine" where
  "store_space pid ms s = s\<lparr>processes := (processes s)(pid \<mapsto> ms)\<rparr>"

text \<open>\<^verbatim>\<open>GetModuleInformation\<close>.\<close>

definition GetModuleInformation ::
  "ParseEngine \<Rightarrow> DWORD \<Rightarrow> AbsoluteAddress64 \<Rightarrow> ModuleInformation option" where
  "GetModuleInformation s process_id addr =
     (case processes s process_id of
        None \<Rightarrow> None
      | Some module_space \<Rightarrow>
          (case FindFirstIntersection module_space (Range (unat addr) 1) of
             None \<Rightarrow> None
           | Some module_it \<Rightarrow> map_option as_ModuleInformation (deref module_space module_it)))"

text \<open>
  The test of lines 106 to 116: everything but the path matches, and the base names of the
  two paths agree. \<^verbatim>\<open>base::FilePath::BaseName\<close> belongs to the Chromium base library, not
  to this repository: it is the parameter \<open>bn\<close>.
\<close>

definition same_module_except_path ::
  "(string \<Rightarrow> string) \<Rightarrow> ModuleInformation \<Rightarrow> AnnotatedModuleInformation \<Rightarrow> bool" where
  "same_module_except_path bn module_info old \<longleftrightarrow>
     base_address module_info = base_address old \<and>
     ModuleInformation.module_checksum module_info = ModuleInformation.module_checksum old \<and>
     module_size module_info = module_size old \<and>
     ModuleInformation.module_time_date_stamp module_info =
       ModuleInformation.module_time_date_stamp old \<and>
     bn (path module_info) = bn (path old)"

text \<open>
  The loop of lines 121 to 126: while the entry under the iterator is dirty, remove it and
  try the insertion again. The result is whether an insertion succeeded, the module space
  and the iterator. An iterator that is not in the map ends the loop; the iterators the
  engine passes are in the map (lemma \<open>FindOrInsert_iter\<close> below).
\<close>

function evict_while_dirty ::
  "Range \<Rightarrow> AnnotatedModuleInformation \<Rightarrow> ModuleSpace \<Rightarrow> Range \<Rightarrow> bool \<times> ModuleSpace \<times> Range" where
  "evict_while_dirty rng new_module_info module_space iter =
     (case deref module_space iter of
        None \<Rightarrow> (False, module_space, iter)
      | Some old \<Rightarrow>
          if is_dirty old then
            (case FindOrInsert (Remove module_space iter) rng new_module_info of
               (True, module_space', iter') \<Rightarrow> (True, module_space', iter')
             | (False, module_space', iter') \<Rightarrow>
                 evict_while_dirty rng new_module_info module_space' iter')
          else (False, module_space, iter))"
  by pat_completeness auto
termination
  apply (relation "measure (\<lambda>(rng, new_module_info, module_space, iter). length module_space)")
   apply simp
  apply (auto simp: FindOrInsert_def deref_def Remove_def split: option.splits)
  subgoal for rng module_space iter old
    using length_filter_less [of "(iter, old)" module_space "\<lambda>kv. fst kv \<noteq> iter"]
    by (simp add: map_of_SomeD)
  done

declare evict_while_dirty.simps [simp del]

text \<open>\<^verbatim>\<open>AddModuleInformation\<close>. The result is the returned flag and the engine afterwards.\<close>

definition AddModuleInformation ::
  "(string \<Rightarrow> string) \<Rightarrow> DWORD \<Rightarrow> ModuleInformation \<Rightarrow> ParseEngine \<Rightarrow> bool \<times> ParseEngine" where
  "AddModuleInformation bn process_id module_info s =
     (if module_size module_info = 0 then (True, s)
      else if path module_info = [] then (True, s)
      else
        let module_space = processes_at s process_id;
            rng = Range (unat (base_address module_info)) (unat (module_size module_info));
            new_module_info = annotate module_info
        in case FindOrInsert module_space rng new_module_info of
             (True, module_space1, iter) \<Rightarrow> (True, store_space process_id module_space1 s)
           | (False, module_space1, iter) \<Rightarrow>
               if (case deref module_space1 iter of
                     None \<Rightarrow> False
                   | Some old \<Rightarrow> same_module_except_path bn module_info old)
               then (True, store_space process_id module_space1 s)
               else
                 (case evict_while_dirty rng new_module_info module_space1 iter of
                    (True, module_space2, iter2) \<Rightarrow>
                      (True, store_space process_id module_space2 s)
                  | (False, module_space2, iter2) \<Rightarrow>
                      (if fail_on_module_conflict s then False else True,
                       store_space process_id module_space2 s)))"

text \<open>\<^verbatim>\<open>RemoveModuleInformation\<close>.\<close>

definition RemoveModuleInformation ::
  "DWORD \<Rightarrow> ModuleInformation \<Rightarrow> ParseEngine \<Rightarrow> bool \<times> ParseEngine" where
  "RemoveModuleInformation process_id module_info s =
     (if module_size module_info = 0 then (True, s)
      else if path module_info = [] then (True, s)
      else
        let module_space = processes_at s process_id;
            rng = Range (unat (base_address module_info)) (unat (module_size module_info))
        in case FindFirstIntersection module_space rng of
             None \<Rightarrow> (True, store_space process_id module_space s)
           | Some it \<Rightarrow>
               if it \<noteq> rng \<and> fail_on_module_conflict s
               then (False, store_space process_id module_space s)
               else (True, store_space process_id (set_dirty it module_space) s))"

text \<open>\<^verbatim>\<open>RemoveProcessInformation\<close>.\<close>

definition RemoveProcessInformation :: "DWORD \<Rightarrow> ParseEngine \<Rightarrow> bool \<times> ParseEngine" where
  "RemoveProcessInformation process_id s =
     (case processes s process_id of
        None \<Rightarrow> (False, s)
      | Some process_info \<Rightarrow>
          (True, store_space process_id
                   (map (\<lambda>kv. (fst kv, (snd kv)\<lparr>is_dirty := True\<rparr>)) process_info) s))"

subsection \<open>The per-kind dispatchers\<close>

text \<open>
  Every dispatcher returns its \<^verbatim>\<open>bool\<close> and the engine afterwards. The reader is opened
  over \<^verbatim>\<open>MofLength\<close> bytes; a successful read of a structure gives the typed view of
  the payload. The expected lengths are computed in \<^verbatim>\<open>size_t\<close>, that is modulo
  \<open>2 ^ 32\<close>.
\<close>

definition DispatchEntryExitEvent ::
  "trace_defs \<Rightarrow> EVENT_TRACE \<Rightarrow> TraceEventType \<Rightarrow> ParseEngine \<Rightarrow> bool \<times> ParseEngine" where
  "DispatchEntryExitEvent D event type s =
     (case Read (new_reader (MofLength event)) (sizeof_TraceEnterExitEventData D) of
        None \<Rightarrow> (False, s)
      | Some reader \<Rightarrow>
          (case type of
             TRACE_ENTER_EVENT \<Rightarrow>
               (True, call_handler (OnFunctionEntry (Header_TimeStamp event)
                        (Header_ProcessId event) (Header_ThreadId event)) s)
           | TRACE_EXIT_EVENT \<Rightarrow>
               (True, call_handler (OnFunctionExit (Header_TimeStamp event)
                        (Header_ProcessId event) (Header_ThreadId event)) s)
           | _ \<Rightarrow> (False, s)))"

definition DispatchBatchEnterEvent ::
  "trace_defs \<Rightarrow> EVENT_TRACE \<Rightarrow> ParseEngine \<Rightarrow> bool \<times> ParseEngine" where
  "DispatchBatchEnterEvent D event s =
     (let offset_to_calls = offsetof_TraceBatchEnterData_calls D
      in case Read (new_reader (MofLength event)) offset_to_calls of
           None \<Rightarrow> (False, s)
         | Some reader \<Rightarrow>
             let data = as_TraceBatchEnterData (MofData event);
                 bytes_needed = num_calls data * sizeof_TraceBatchEnterData_call D
             in case Consume reader bytes_needed of
                  None \<Rightarrow> (False, s)
                | Some reader' \<Rightarrow>
                    let data' =
                          (if num_calls data \<noteq> 0 \<and>
                              calls_function data (unat (num_calls data - 1)) = 0
                           then data\<lparr>num_calls := num_calls data - 1\<rparr>
                           else data)
                    in (True, call_handler (OnBatchFunctionEntry (Header_TimeStamp event)
                                 (Header_ProcessId event) (thread_id data') data') s))"

definition DispatchProcessEndedEvent :: "EVENT_TRACE \<Rightarrow> ParseEngine \<Rightarrow> bool \<times> ParseEngine" where
  "DispatchProcessEndedEvent event s =
     (let s1 = call_handler (OnProcessEnded (Header_TimeStamp event) (Header_ProcessId event)) s
      in case RemoveProcessInformation (Header_ProcessId event) s1 of
           (False, s2) \<Rightarrow> (False, s2)
         | (True, s2) \<Rightarrow> (True, s2))"

definition DispatchBatchInvocationEvent ::
  "trace_defs \<Rightarrow> EVENT_TRACE \<Rightarrow> ParseEngine \<Rightarrow> bool \<times> ParseEngine" where
  "DispatchBatchInvocationEvent D event s =
     (if MofLength event mod sizeof_InvocationInfo D \<noteq> 0 then (False, s)
      else
        case Read (new_reader (MofLength event)) (MofLength event) of
          None \<Rightarrow> (False, s)
        | Some reader \<Rightarrow>
            let num_invocations = MofLength event div sizeof_InvocationInfo D
            in (True, call_handler (OnInvocationBatch (Header_TimeStamp event)
                         (Header_ProcessId event) (Header_ThreadId event) num_invocations) s))"

definition DispatchThreadNameEvent :: "EVENT_TRACE \<Rightarrow> ParseEngine \<Rightarrow> bool \<times> ParseEngine" where
  "DispatchThreadNameEvent event s =
     (case ReadString (new_reader (MofLength event)) (as_chars (MofData event)) of
        None \<Rightarrow> (False, s)
      | Some (thread_name, reader) \<Rightarrow>
          (True, call_handler (OnThreadName (Header_TimeStamp event)
                   (Header_ProcessId event) (Header_ThreadId event) thread_name) s))"

definition DispatchIndexedFrequencyEvent ::
  "trace_defs \<Rightarrow> EVENT_TRACE \<Rightarrow> ParseEngine \<Rightarrow> bool \<times> ParseEngine" where
  "DispatchIndexedFrequencyEvent D event s =
     (if MofLength event < sizeof_TraceIndexedFrequencyData D then (False, s)
      else
        case Read (new_reader (MofLength event)) (sizeof_TraceIndexedFrequencyData D) of
          None \<Rightarrow> (False, s)
        | Some reader \<Rightarrow>
            let data = as_TraceIndexedFrequencyData (MofData event);
                expected_length = frequency_size data * num_entries data +
                                  sizeof_TraceIndexedFrequencyData D - 1
            in if MofLength event < expected_length then (False, s)
               else (True, call_handler (OnIndexedFrequency (Header_TimeStamp event)
                             (Header_ProcessId event) (Header_ThreadId event) data) s))"

definition DispatchDynamicSymbolEvent ::
  "trace_defs \<Rightarrow> EVENT_TRACE \<Rightarrow> ParseEngine \<Rightarrow> bool \<times> ParseEngine" where
  "DispatchDynamicSymbolEvent D event s =
     (case Read (new_reader (MofLength event)) (offsetof_TraceDynamicSymbol_symbol_name D) of
        None \<Rightarrow> (False, s)
      | Some reader \<Rightarrow>
          (case ReadString reader (as_chars (MofData event)) of
             None \<Rightarrow> (False, s)
           | Some (symbol_name, reader') \<Rightarrow>
               (True, call_handler (OnDynamicSymbol (Header_ProcessId event)
                        (symbol_id (as_TraceDynamicSymbol (MofData event))) symbol_name) s)))"

definition DispatchSampleDataEvent ::
  "trace_defs \<Rightarrow> EVENT_TRACE \<Rightarrow> ParseEngine \<Rightarrow> bool \<times> ParseEngine" where
  "DispatchSampleDataEvent D event s =
     (case Read (new_reader (MofLength event)) (sizeof_TraceSampleData D) of
        None \<Rightarrow> (False, s)
      | Some reader \<Rightarrow>
          let data = as_TraceSampleData (MofData event);
              expected_length = offsetof_TraceSampleData_buckets D +
                                sizeof_TraceSampleData_bucket D * bucket_count data
          in if MofLength event < expected_length then (False, s)
             else (True, call_handler (OnSampleData (Header_TimeStamp event)
                           (Header_ProcessId event) data) s))"

definition DispatchFunctionNameTableEntryEvent ::
  "trace_defs \<Rightarrow> EVENT_TRACE \<Rightarrow> ParseEngine \<Rightarrow> bool \<times> ParseEngine" where
  "DispatchFunctionNameTableEntryEvent D event s =
     (case Read (new_reader (MofLength event)) (sizeof_TraceFunctionNameTableEntry D) of
        None \<Rightarrow> (False, s)
      | Some reader \<Rightarrow>
          let data = as_TraceFunctionNameTableEntry (MofData event);
              expected_length = offsetof_TraceFunctionNameTableEntry_name D + name_length data
          in if MofLength event < expected_length then (False, s)
             else (True, call_handler (OnFunctionNameTableEntry (Header_TimeStamp event)
                           (Header_ProcessId event) data) s))"

definition DispatchStackTrace ::
  "trace_defs \<Rightarrow> EVENT_TRACE \<Rightarrow> ParseEngine \<Rightarrow> bool \<times> ParseEngine" where
  "DispatchStackTrace D event s =
     (case Read (new_reader (MofLength event)) (sizeof_TraceStackTrace D) of
        None \<Rightarrow> (False, s)
      | Some reader \<Rightarrow>
          let data = as_TraceStackTrace (MofData event);
              expected_length = offsetof_TraceStackTrace_frames D + num_frames data * 4
          in if MofLength event < expected_length then (False, s)
             else (True, call_handler (OnStackTrace (Header_TimeStamp event)
                           (Header_ProcessId event) data) s))"

definition DispatchDetailedFunctionCall ::
  "trace_defs \<Rightarrow> EVENT_TRACE \<Rightarrow> ParseEngine \<Rightarrow> bool \<times> ParseEngine" where
  "DispatchDetailedFunctionCall D event s =
     (case Read (new_reader (MofLength event)) (sizeof_TraceDetailedFunctionCall D) of
        None \<Rightarrow> (False, s)
      | Some reader \<Rightarrow>
          let data = as_TraceDetailedFunctionCall (MofData event);
              expected_length = offsetof_TraceDetailedFunctionCall_argument_data D +
                                argument_data_size data
          in if MofLength event < expected_length then (False, s)
             else (True, call_handler (OnDetailedFunctionCall (Header_TimeStamp event)
                           (Header_ProcessId event) (Header_ThreadId event) data) s))"

definition DispatchComment ::
  "trace_defs \<Rightarrow> EVENT_TRACE \<Rightarrow> ParseEngine \<Rightarrow> bool \<times> ParseEngine" where
  "DispatchComment D event s =
     (case Read (new_reader (MofLength event)) (sizeof_TraceComment D) of
        None \<Rightarrow> (False, s)
      | Some reader \<Rightarrow>
          let data = as_TraceComment (MofData event);
              expected_length = offsetof_TraceComment_comment D + comment_size data
          in if MofLength event < expected_length then (False, s)
             else (True, call_handler (OnComment (Header_TimeStamp event)
                           (Header_ProcessId event) data) s))"

definition DispatchProcessHeap ::
  "trace_defs \<Rightarrow> EVENT_TRACE \<Rightarrow> ParseEngine \<Rightarrow> bool \<times> ParseEngine" where
  "DispatchProcessHeap D event s =
     (case Read (new_reader (MofLength event)) (sizeof_TraceProcessHeap D) of
        None \<Rightarrow> (False, s)
      | Some reader \<Rightarrow>
          (True, call_handler (OnProcessHeap (Header_TimeStamp event) (Header_ProcessId event)) s))"

text \<open>\<^verbatim>\<open>ModuleTraceDataToModuleInformation\<close>: the base address goes through
  \<^verbatim>\<open>uint32_t\<close> into the 64-bit address.\<close>

definition ModuleTraceDataToModuleInformation :: "TraceModuleData \<Rightarrow> ModuleInformation" where
  "ModuleTraceDataToModuleInformation module_data =
     \<lparr>base_address = ucast (module_base_addr module_data),
      module_size = ucast (module_base_size module_data),
      path = module_name_chars module_data,
      module_checksum = TraceModuleData.module_checksum module_data,
      module_time_date_stamp = TraceModuleData.module_time_date_stamp module_data\<rparr>"

text \<open>\<^verbatim>\<open>DispatchModuleEvent\<close>. The results of \<^verbatim>\<open>AddModuleInformation\<close> and
  \<^verbatim>\<open>RemoveModuleInformation\<close> are not looked at (lines 719 and 728).\<close>

definition DispatchModuleEvent ::
  "trace_defs \<Rightarrow> (string \<Rightarrow> string) \<Rightarrow> EVENT_TRACE \<Rightarrow> TraceEventType \<Rightarrow> ParseEngine \<Rightarrow>
     bool \<times> ParseEngine" where
  "DispatchModuleEvent D bn event type s =
     (case Read (new_reader (MofLength event)) (sizeof_TraceModuleData D) of
        None \<Rightarrow> (False, s)
      | Some reader \<Rightarrow>
          let data = as_TraceModuleData (MofData event) in
          if module_base_addr data = 0 then (True, s)
          else
            let time = Header_TimeStamp event;
                process_id = Header_ProcessId event;
                thread_id = Header_ThreadId event
            in case type of
                 TRACE_PROCESS_ATTACH_EVENT \<Rightarrow>
                   let module_info = ModuleTraceDataToModuleInformation data;
                       s1 = snd (AddModuleInformation bn process_id module_info s)
                   in (True, call_handler (OnProcessAttach time process_id thread_id data) s1)
               | TRACE_PROCESS_DETACH_EVENT \<Rightarrow>
                   let s1 = call_handler (OnProcessDetach time process_id thread_id data) s;
                       module_info = ModuleTraceDataToModuleInformation data
                   in (True, snd (RemoveModuleInformation process_id module_info s1))
               | TRACE_THREAD_ATTACH_EVENT \<Rightarrow>
                   (True, call_handler (OnThreadAttach time process_id thread_id data) s)
               | TRACE_THREAD_DETACH_EVENT \<Rightarrow>
                   (True, call_handler (OnThreadDetach time process_id thread_id data) s)
               | _ \<Rightarrow> (False, s))"

subsection \<open>The dispatcher\<close>

text \<open>The switch over the event type (lines 209 to 277), giving \<^verbatim>\<open>success\<close>. The
  reserved \<^verbatim>\<open>TRACE_MODULE_EVENT\<close> and the \<^verbatim>\<open>default\<close> branch only log and leave
  \<^verbatim>\<open>success\<close> at its initial \<^verbatim>\<open>false\<close>.\<close>

definition DispatchEvent_switch ::
  "trace_defs \<Rightarrow> (string \<Rightarrow> string) \<Rightarrow> EVENT_TRACE \<Rightarrow> TraceEventType \<Rightarrow> ParseEngine \<Rightarrow>
     bool \<times> ParseEngine" where
  "DispatchEvent_switch D bn event type s =
     (case type of
        TRACE_ENTER_EVENT \<Rightarrow> DispatchEntryExitEvent D event type s
      | TRACE_EXIT_EVENT \<Rightarrow> DispatchEntryExitEvent D event type s
      | TRACE_BATCH_ENTER \<Rightarrow> DispatchBatchEnterEvent D event s
      | TRACE_PROCESS_ATTACH_EVENT \<Rightarrow> DispatchModuleEvent D bn event type s
      | TRACE_PROCESS_DETACH_EVENT \<Rightarrow> DispatchModuleEvent D bn event type s
      | TRACE_THREAD_ATTACH_EVENT \<Rightarrow> DispatchModuleEvent D bn event type s
      | TRACE_THREAD_DETACH_EVENT \<Rightarrow> DispatchModuleEvent D bn event type s
      | TRACE_PROCESS_ENDED \<Rightarrow> DispatchProcessEndedEvent event s
      | TRACE_MODULE_EVENT \<Rightarrow> (False, s)
      | TRACE_BATCH_INVOCATION \<Rightarrow> DispatchBatchInvocationEvent D event s
      | TRACE_THREAD_NAME \<Rightarrow> DispatchThreadNameEvent event s
      | TRACE_INDEXED_FREQUENCY \<Rightarrow> DispatchIndexedFrequencyEvent D event s
      | TRACE_DYNAMIC_SYMBOL \<Rightarrow> DispatchDynamicSymbolEvent D event s
      | TRACE_SAMPLE_DATA \<Rightarrow> DispatchSampleDataEvent D event s
      | TRACE_FUNCTION_NAME_TABLE_ENTRY \<Rightarrow> DispatchFunctionNameTableEntryEvent D event s
      | TRACE_STACK_TRACE \<Rightarrow> DispatchStackTrace D event s
      | TRACE_DETAILED_FUNCTION_CALL \<Rightarrow> DispatchDetailedFunctionCall D event s
      | TRACE_COMMENT \<Rightarrow> DispatchComment D event s
      | TRACE_PROCESS_HEAP \<Rightarrow> DispatchProcessHeap D event s
      | TRACE_UNLISTED n \<Rightarrow> (False, s))"

text \<open>\<^verbatim>\<open>DispatchEvent\<close>: a foreign class GUID returns \<^verbatim>\<open>false\<close>; otherwise the switch
  runs, a failure sets \<^verbatim>\<open>error_occurred_\<close>, and the result is \<^verbatim>\<open>true\<close>.\<close>

definition DispatchEvent ::
  "trace_defs \<Rightarrow> (string \<Rightarrow> string) \<Rightarrow> EVENT_TRACE \<Rightarrow> ParseEngine \<Rightarrow> bool \<times> ParseEngine" where
  "DispatchEvent D bn event s =
     (if kCallTraceEventClass D \<noteq> Header_Guid event then (False, s)
      else
        let type = Header_Class_Type event;
            (success, s1) = DispatchEvent_switch D bn event type s
        in (True, if \<not> success then s1\<lparr>error_occurred := True\<rparr> else s1))"

subsection \<open>Reachable engines and the invariant of the module spaces\<close>

text \<open>The engines that the three module-tracking operations produce from a new engine.\<close>

inductive reachable :: "(string \<Rightarrow> string) \<Rightarrow> ParseEngine \<Rightarrow> bool" for bn where
  reachable_new: "reachable bn (new_ParseEngine nm fail)"
| reachable_AddModule:
    "reachable bn s \<Longrightarrow> reachable bn (snd (AddModuleInformation bn process_id module_info s))"
| reachable_RemoveModule:
    "reachable bn s \<Longrightarrow> reachable bn (snd (RemoveModuleInformation process_id module_info s))"
| reachable_RemoveProcess:
    "reachable bn s \<Longrightarrow> reachable bn (snd (RemoveProcessInformation process_id s))"

text \<open>No two entries of a module space, dirty or not, have overlapping ranges.\<close>

fun all_disjoint :: "ModuleSpace \<Rightarrow> bool" where
  "all_disjoint [] = True"
| "all_disjoint ((k, v) # ms) =
     (list_all (\<lambda>kv. \<not> intersects k (fst kv)) ms \<and> all_disjoint ms)"

subsection \<open>The expected length in the words of the specification\<close>

text \<open>The specification (section 4.F and property B1) computes the expected length of an
  indexed-frequency record as the offset of the tail field plus
  \<open>frequency_size * num_entries\<close>.\<close>

definition spec_expected_length :: "trace_defs \<Rightarrow> TraceIndexedFrequencyData \<Rightarrow> nat" where
  "spec_expected_length D data =
     unat (offsetof_TraceIndexedFrequencyData_frequency_data D) +
     unat (frequency_size data) * unat (num_entries data)"

subsection \<open>Concrete values for the examples\<close>

text \<open>
  The general theorems hold for every \<open>trace_defs\<close> and every base-name function. The
  closed examples need values: a sample layout of the payload structures, and a stand-in
  for \<^verbatim>\<open>FilePath::BaseName\<close> that returns the part of a path behind its last separator.
\<close>

definition sample_defs :: trace_defs where
  "sample_defs =
     \<lparr>kCallTraceEventClass = 0x06255E3614B04E5789642E3D675A0E77,
      sizeof_TraceEnterExitEventData = 8,
      offsetof_TraceBatchEnterData_calls = 8,
      sizeof_TraceBatchEnterData_call = 8,
      sizeof_InvocationInfo = 40,
      sizeof_TraceModuleData = 1048,
      sizeof_TraceIndexedFrequencyData = 28,
      offsetof_TraceIndexedFrequencyData_frequency_data = 26,
      offsetof_TraceDynamicSymbol_symbol_name = 4,
      sizeof_TraceSampleData = 48,
      offsetof_TraceSampleData_buckets = 44,
      sizeof_TraceSampleData_bucket = 4,
      sizeof_TraceFunctionNameTableEntry = 12,
      offsetof_TraceFunctionNameTableEntry_name = 8,
      sizeof_TraceStackTrace = 16,
      offsetof_TraceStackTrace_frames = 12,
      sizeof_TraceDetailedFunctionCall = 24,
      offsetof_TraceDetailedFunctionCall_argument_data = 20,
      sizeof_TraceComment = 8,
      offsetof_TraceComment_comment = 4,
      sizeof_TraceProcessHeap = 4\<rparr>"

definition BaseName :: "string \<Rightarrow> string" where
  "BaseName p = rev (takeWhile (\<lambda>c. c \<noteq> CHR 0x5C \<and> c \<noteq> CHR ''/'') (rev p))"

text \<open>A payload of zeros, and an event of the call-trace class over it.\<close>

definition zero_mof_data :: mof_data where
  "zero_mof_data =
     \<lparr>as_TraceBatchEnterData = \<lparr>thread_id = 0, num_calls = 0, calls_function = (\<lambda>i. 0)\<rparr>,
      as_TraceModuleData =
        \<lparr>module_base_addr = 0, module_base_size = 0, module_checksum = 0,
         module_time_date_stamp = 0, module_name_chars = []\<rparr>,
      as_TraceIndexedFrequencyData = \<lparr>frequency_size = 0, num_entries = 0\<rparr>,
      as_TraceDynamicSymbol = \<lparr>symbol_id = 0\<rparr>,
      as_TraceSampleData = \<lparr>bucket_count = 0\<rparr>,
      as_TraceFunctionNameTableEntry = \<lparr>name_length = 0\<rparr>,
      as_TraceStackTrace = \<lparr>num_frames = 0\<rparr>,
      as_TraceDetailedFunctionCall = \<lparr>argument_data_size = 0\<rparr>,
      as_TraceComment = \<lparr>comment_size = 0\<rparr>,
      as_chars = []\<rparr>"

definition sample_event :: "TraceEventType \<Rightarrow> DWORD \<Rightarrow> 32 word \<Rightarrow> mof_data \<Rightarrow> EVENT_TRACE" where
  "sample_event type process_id len payload =
     \<lparr>Header_Guid = kCallTraceEventClass sample_defs, Header_Class_Type = type,
      Header_ProcessId = process_id, Header_ThreadId = 7, Header_TimeStamp = 1000,
      MofLength = len, MofData = payload\<rparr>"

text \<open>A module record, and the attach event that carries it.\<close>

definition sample_module :: "32 word \<Rightarrow> 32 word \<Rightarrow> 32 word \<Rightarrow> string \<Rightarrow> TraceModuleData" where
  "sample_module base sz checksum nm =
     \<lparr>module_base_addr = base, module_base_size = sz, module_checksum = checksum,
      module_time_date_stamp = 5, module_name_chars = nm\<rparr>"

definition module_event :: "TraceEventType \<Rightarrow> DWORD \<Rightarrow> TraceModuleData \<Rightarrow> EVENT_TRACE" where
  "module_event type process_id m =
     sample_event type process_id 1048 (zero_mof_data\<lparr>as_TraceModuleData := m\<rparr>)"

text \<open>An indexed-frequency event with a payload of the given length.\<close>

definition freq_event :: "32 word \<Rightarrow> 32 word \<Rightarrow> 32 word \<Rightarrow> EVENT_TRACE" where
  "freq_event len fs ne =
     sample_event TRACE_INDEXED_FREQUENCY 100 len
       (zero_mof_data\<lparr>as_TraceIndexedFrequencyData := \<lparr>frequency_size = fs, num_entries = ne\<rparr>\<rparr>)"

text \<open>A module description, and engines built from a new strict engine: one where process
  50 loaded a module at \<open>[0x1000, 0x3000)\<close> and ended; one where, after that, the process
  id was reused for two other modules; one after the dispatch of a process-attach event.\<close>

definition sample_info :: "64 word \<Rightarrow> 64 word \<Rightarrow> 32 word \<Rightarrow> string \<Rightarrow> ModuleInformation" where
  "sample_info base sz checksum p =
     \<lparr>base_address = base, module_size = sz, path = p, module_checksum = checksum,
      module_time_date_stamp = 5\<rparr>"

definition engine_after_process_end :: "string \<Rightarrow> ParseEngine" where
  "engine_after_process_end p =
     snd (RemoveProcessInformation 50
       (snd (AddModuleInformation BaseName 50 (sample_info 0x1000 0x2000 1 p)
          (new_ParseEngine ''engine'' True))))"

definition engine_after_reuse :: ParseEngine where
  "engine_after_reuse =
     snd (AddModuleInformation BaseName 50 (sample_info 0x5000 0x1000 3 ''C:/c.dll'')
       (snd (AddModuleInformation BaseName 50 (sample_info 0x2000 0x2000 2 ''C:/b.dll'')
         (snd (RemoveProcessInformation 50
           (snd (AddModuleInformation BaseName 50 (sample_info 0x1000 0x2000 1 ''C:/a.dll'')
             (new_ParseEngine ''engine'' True))))))))"

definition engine_after_attach :: ParseEngine where
  "engine_after_attach =
     snd (DispatchEvent sample_defs BaseName
            (module_event TRACE_PROCESS_ATTACH_EVENT 100 (sample_module 0x1000 0x2000 1 ''C:/a.dll''))
            (new_ParseEngine ''engine'' True))"

text \<open>The engine after the process end, with a further module loaded at
  \<open>[0x5000, 0x6000)\<close>, which is live.\<close>

definition engine_with_live_module :: ParseEngine where
  "engine_with_live_module =
     snd (AddModuleInformation BaseName 50 (sample_info 0x5000 0x1000 3 ''C:/c.dll'')
            (engine_after_process_end ''C:/old/a.dll''))"

section \<open>Properties of the dispatcher\<close>

lemma word_mod_nonzero_iff:
  "(a mod b \<noteq> 0) = (unat a mod unat b \<noteq> 0)" for a b :: "32 word"
  by (metis unat_mod unat_eq_0)

text \<open>
  Claim C7. \<^verbatim>\<open>DispatchEvent\<close> returns false exactly when the class GUID of the record is
  not the call-trace class, and then the engine is unchanged (so the fault is not latched).
  For every record of the call-trace class it returns true, whatever the switch over the
  event type reports; a failure reported by the switch is visible in \<open>error_occurred\<close>
  only.
\<close>

theorem DispatchEvent_returns_false_iff_foreign:
  "(fst (DispatchEvent D bn event s) = False \<longleftrightarrow> Header_Guid event \<noteq> kCallTraceEventClass D) \<and>
   (Header_Guid event \<noteq> kCallTraceEventClass D \<longrightarrow> snd (DispatchEvent D bn event s) = s) \<and>
   (Header_Guid event = kCallTraceEventClass D \<longrightarrow>
      fst (DispatchEvent D bn event s) = True \<and>
      error_occurred (snd (DispatchEvent D bn event s)) =
        (\<not> fst (DispatchEvent_switch D bn event (Header_Class_Type event) s) \<or>
         error_occurred (snd (DispatchEvent_switch D bn event (Header_Class_Type event) s))))"
  by (auto simp: DispatchEvent_def Let_def split: prod.splits)

text \<open>A foreign record and a stack-trace record that is too short, on a new engine.\<close>

theorem DispatchEvent_returns_false_iff_foreign_witness:
  "fst (DispatchEvent sample_defs BaseName
          ((sample_event TRACE_STACK_TRACE 100 0 zero_mof_data)\<lparr>Header_Guid := 1\<rparr>)
          (new_ParseEngine ''engine'' False)) = False \<and>
   snd (DispatchEvent sample_defs BaseName
          ((sample_event TRACE_STACK_TRACE 100 0 zero_mof_data)\<lparr>Header_Guid := 1\<rparr>)
          (new_ParseEngine ''engine'' False)) = new_ParseEngine ''engine'' False \<and>
   fst (DispatchEvent sample_defs BaseName (sample_event TRACE_STACK_TRACE 100 0 zero_mof_data)
          (new_ParseEngine ''engine'' False)) = True \<and>
   error_occurred (snd (DispatchEvent sample_defs BaseName
          (sample_event TRACE_STACK_TRACE 100 0 zero_mof_data)
          (new_ParseEngine ''engine'' False))) = True"
  using DispatchEvent_returns_false_iff_foreign
          [of sample_defs BaseName
              "(sample_event TRACE_STACK_TRACE 100 0 zero_mof_data)\<lparr>Header_Guid := 1\<rparr>"
              "new_ParseEngine ''engine'' False"]
        DispatchEvent_returns_false_iff_foreign
          [of sample_defs BaseName "sample_event TRACE_STACK_TRACE 100 0 zero_mof_data"
              "new_ParseEngine ''engine'' False"]
  by (simp add: sample_event_def sample_defs_def DispatchEvent_switch_def DispatchStackTrace_def
        Read_def new_reader_def)

text \<open>
  Claim C2 says that a record of the reserved type \<^verbatim>\<open>TRACE_MODULE_EVENT\<close> leaves the
  handler without a callback and the fault not latched. On a new engine the fault is latched
  after such a record.
\<close>

theorem module_event_ignored_counterexample:
  "\<not> (event_handler (snd (DispatchEvent sample_defs BaseName
          (sample_event TRACE_MODULE_EVENT 100 0 zero_mof_data)
          (new_ParseEngine ''engine'' False))) = [] \<and>
       error_occurred (snd (DispatchEvent sample_defs BaseName
          (sample_event TRACE_MODULE_EVENT 100 0 zero_mof_data)
          (new_ParseEngine ''engine'' False))) = False)"
  by (simp add: DispatchEvent_def DispatchEvent_switch_def sample_event_def new_ParseEngine_def)

text \<open>
  Claim C2, amended. A record of the reserved type \<^verbatim>\<open>TRACE_MODULE_EVENT\<close> is not parsed:
  the dispatch returns true, no handler callback is made, the module spaces are unchanged,
  and the fault is latched.
\<close>

theorem module_event_latches:
  "Header_Guid event = kCallTraceEventClass D \<Longrightarrow>
   Header_Class_Type event = TRACE_MODULE_EVENT \<Longrightarrow>
   DispatchEvent D bn event s = (True, s\<lparr>error_occurred := True\<rparr>)"
  by (simp add: DispatchEvent_def DispatchEvent_switch_def)

theorem module_event_latches_witness:
  "DispatchEvent sample_defs BaseName (sample_event TRACE_MODULE_EVENT 100 0 zero_mof_data)
     (new_ParseEngine ''engine'' False) =
   (True, \<lparr>name = ''engine'', event_handler = [], error_occurred = True,
           fail_on_module_conflict = False, processes = Map.empty\<rparr>)"
  using module_event_latches [of "sample_event TRACE_MODULE_EVENT 100 0 zero_mof_data" sample_defs
          BaseName "new_ParseEngine ''engine'' False"]
  by (simp add: sample_event_def new_ParseEngine_def)

text \<open>
  Claim C10. A process-attach, process-detach, thread-attach or thread-detach record that
  holds a complete \<^verbatim>\<open>TraceModuleData\<close> whose \<^verbatim>\<open>module_base_addr\<close> is null is dispatched
  with result true and leaves the engine as it was: no handler callback, no change of the
  module spaces, no fault.
\<close>

theorem null_module_base_is_ignored:
  assumes "Header_Guid event = kCallTraceEventClass D"
    and "Header_Class_Type event \<in> {TRACE_PROCESS_ATTACH_EVENT, TRACE_PROCESS_DETACH_EVENT,
           TRACE_THREAD_ATTACH_EVENT, TRACE_THREAD_DETACH_EVENT}"
    and "sizeof_TraceModuleData D \<le> MofLength event"
    and "module_base_addr (as_TraceModuleData (MofData event)) = 0"
  shows "DispatchEvent D bn event s = (True, s)"
  using assms
  by (auto simp: DispatchEvent_def DispatchEvent_switch_def DispatchModuleEvent_def Read_def
        new_reader_def word_le_nat_alt)

theorem null_module_base_is_ignored_witness:
  "DispatchEvent sample_defs BaseName
     (module_event TRACE_PROCESS_ATTACH_EVENT 100 (sample_module 0 0x2000 1 ''C:/a.dll''))
     (new_ParseEngine ''engine'' True) = (True, new_ParseEngine ''engine'' True)"
  using null_module_base_is_ignored
          [of "module_event TRACE_PROCESS_ATTACH_EVENT 100 (sample_module 0 0x2000 1 ''C:/a.dll'')"
              sample_defs BaseName "new_ParseEngine ''engine'' True"]
  by (simp add: module_event_def sample_event_def sample_defs_def sample_module_def)

text \<open>
  Claim C6. A batch-invocation record whose payload length is not a multiple of
  \<^verbatim>\<open>sizeof(InvocationInfo)\<close> fails: no handler callback, and the fault is latched. Otherwise
  the handler receives \<^verbatim>\<open>OnInvocationBatch\<close> with the payload length divided by
  \<^verbatim>\<open>sizeof(InvocationInfo)\<close> as the number of invocations.
\<close>

theorem batch_invocation_length:
  assumes "Header_Guid event = kCallTraceEventClass D"
    and "Header_Class_Type event = TRACE_BATCH_INVOCATION"
  shows "DispatchEvent D bn event s =
     (True,
      if unat (MofLength event) mod unat (sizeof_InvocationInfo D) \<noteq> 0
      then s\<lparr>error_occurred := True\<rparr>
      else call_handler
             (OnInvocationBatch (Header_TimeStamp event) (Header_ProcessId event)
                (Header_ThreadId event)
                (of_nat (unat (MofLength event) div unat (sizeof_InvocationInfo D)))) s)"
proof -
  have d: "MofLength event div sizeof_InvocationInfo D =
        of_nat (unat (MofLength event) div unat (sizeof_InvocationInfo D))"
    by (simp add: unat_div [symmetric])
  show ?thesis
    using assms
    by (simp add: DispatchEvent_def DispatchEvent_switch_def DispatchBatchInvocationEvent_def
          Read_def new_reader_def word_mod_nonzero_iff d)
qed

text \<open>Payloads of 81 and of 80 bytes, with entries of 40 bytes.\<close>

theorem batch_invocation_length_witness:
  "DispatchEvent sample_defs BaseName (sample_event TRACE_BATCH_INVOCATION 100 81 zero_mof_data)
     (new_ParseEngine ''engine'' False) =
     (True, (new_ParseEngine ''engine'' False)\<lparr>error_occurred := True\<rparr>) \<and>
   DispatchEvent sample_defs BaseName (sample_event TRACE_BATCH_INVOCATION 100 80 zero_mof_data)
     (new_ParseEngine ''engine'' False) =
     (True, call_handler (OnInvocationBatch 1000 100 7 2) (new_ParseEngine ''engine'' False))"
  using batch_invocation_length
          [of "sample_event TRACE_BATCH_INVOCATION 100 81 zero_mof_data" sample_defs BaseName
              "new_ParseEngine ''engine'' False"]
        batch_invocation_length
          [of "sample_event TRACE_BATCH_INVOCATION 100 80 zero_mof_data" sample_defs BaseName
              "new_ParseEngine ''engine'' False"]
  by (simp add: sample_event_def sample_defs_def)

text \<open>
  Claim C5. A batch-enter record with \<^verbatim>\<open>num_calls >= 1\<close> whose payload holds the header and
  \<^verbatim>\<open>num_calls\<close> complete call records, and whose last call record has a null
  \<^verbatim>\<open>function\<close>, is delivered to \<^verbatim>\<open>OnBatchFunctionEntry\<close> with \<^verbatim>\<open>num_calls\<close> decremented by
  one; the dispatch returns true and the fault flag is untouched.
\<close>

theorem batch_enter_trims_null_last_call:
  assumes "Header_Guid event = kCallTraceEventClass D"
    and "Header_Class_Type event = TRACE_BATCH_ENTER"
    and "data = as_TraceBatchEnterData (MofData event)"
    and "num_calls data \<noteq> 0"
    and "unat (offsetof_TraceBatchEnterData_calls D) +
         unat (num_calls data) * unat (sizeof_TraceBatchEnterData_call D) \<le> unat (MofLength event)"
    and "calls_function data (unat (num_calls data) - 1) = 0"
  shows "DispatchEvent D bn event s =
     (True, call_handler
              (OnBatchFunctionEntry (Header_TimeStamp event) (Header_ProcessId event)
                 (thread_id data) (data\<lparr>num_calls := num_calls data - 1\<rparr>)) s)"
proof -
  have "unat (num_calls data * sizeof_TraceBatchEnterData_call D) \<le>
        unat (num_calls data) * unat (sizeof_TraceBatchEnterData_call D)"
    by (simp add: unat_word_ariths)
  then have c: "unat (num_calls data * sizeof_TraceBatchEnterData_call D) \<le>
        unat (MofLength event) - unat (offsetof_TraceBatchEnterData_calls D)"
    using assms(5) by linarith
  have r: "unat (offsetof_TraceBatchEnterData_calls D) \<le> unat (MofLength event)"
    using assms(5) by linarith
  have l: "unat (num_calls data - 1) = unat (num_calls data) - 1"
    using assms(4) by (simp add: unat_minus_one)
  show ?thesis
    using assms(1,2,4,6) c r l
    by (simp add: DispatchEvent_def DispatchEvent_switch_def DispatchBatchEnterEvent_def
          Read_def Consume_def new_reader_def Let_def assms(3) [symmetric])
qed

text \<open>Three calls of 8 bytes behind a header of 8 bytes, the third with a null function.\<close>

theorem batch_enter_trims_null_last_call_witness:
  "DispatchEvent sample_defs BaseName
     (sample_event TRACE_BATCH_ENTER 100 32
        (zero_mof_data\<lparr>as_TraceBatchEnterData :=
           \<lparr>thread_id = 9, num_calls = 3, calls_function = (\<lambda>i. if i < 2 then 0x401000 else 0)\<rparr>\<rparr>))
     (new_ParseEngine ''engine'' False) =
   (True, call_handler
      (OnBatchFunctionEntry 1000 100 9
         \<lparr>thread_id = 9, num_calls = 2, calls_function = (\<lambda>i. if i < 2 then 0x401000 else 0)\<rparr>)
      (new_ParseEngine ''engine'' False))"
  using batch_enter_trims_null_last_call
     [of "sample_event TRACE_BATCH_ENTER 100 32
        (zero_mof_data\<lparr>as_TraceBatchEnterData :=
           \<lparr>thread_id = 9, num_calls = 3, calls_function = (\<lambda>i. if i < 2 then 0x401000 else 0)\<rparr>\<rparr>)"
       sample_defs
       "\<lparr>thread_id = 9, num_calls = 3, calls_function = (\<lambda>i. if i < 2 then 0x401000 else 0)\<rparr>"
       BaseName "new_ParseEngine ''engine'' False"]
  by (simp add: sample_event_def sample_defs_def zero_mof_data_def)

section \<open>The indexed-frequency record\<close>

text \<open>
  Claim C4 says that an indexed-frequency record whose payload length equals the offset of
  the tail field plus \<open>frequency_size * num_entries\<close> is dispatched successfully. A record
  without entries has that length and is shorter than the structure itself: its dispatch
  fails and latches the fault. The same holds one byte further, at the length
  \<open>sizeof(TraceIndexedFrequencyData) - 1\<close> that the code computes for a record
  without entries.
\<close>

theorem indexed_frequency_spec_length_counterexample:
  "unat (MofLength (freq_event 26 1 0)) =
     spec_expected_length sample_defs (as_TraceIndexedFrequencyData (MofData (freq_event 26 1 0))) \<and>
   DispatchEvent sample_defs BaseName (freq_event 26 1 0) (new_ParseEngine ''engine'' False) =
     (True, (new_ParseEngine ''engine'' False)\<lparr>error_occurred := True\<rparr>) \<and>
   DispatchEvent sample_defs BaseName (freq_event 27 1 0) (new_ParseEngine ''engine'' False) =
     (True, (new_ParseEngine ''engine'' False)\<lparr>error_occurred := True\<rparr>)"
  by (simp add: freq_event_def sample_event_def sample_defs_def zero_mof_data_def
        spec_expected_length_def DispatchEvent_def DispatchEvent_switch_def
        DispatchIndexedFrequencyEvent_def)

text \<open>Whatever the layout, a payload shorter than \<^verbatim>\<open>sizeof(TraceIndexedFrequencyData)\<close>
  fails (line 440).\<close>

lemma indexed_frequency_header_must_fit:
  assumes "Header_Guid event = kCallTraceEventClass D"
    and "Header_Class_Type event = TRACE_INDEXED_FREQUENCY"
    and "MofLength event < sizeof_TraceIndexedFrequencyData D"
  shows "DispatchEvent D bn event s = (True, s\<lparr>error_occurred := True\<rparr>)"
  using assms
  by (simp add: DispatchEvent_def DispatchEvent_switch_def DispatchIndexedFrequencyEvent_def)

text \<open>
  Claim C4, amended. With the expected length computed as the code does, in \<^verbatim>\<open>size_t\<close>
  arithmetic, as \<open>frequency_size * num_entries + sizeof(TraceIndexedFrequencyData) - 1\<close>:
  a record whose payload length equals the expected length and is at least
  \<^verbatim>\<open>sizeof(TraceIndexedFrequencyData)\<close> is dispatched successfully to
  \<^verbatim>\<open>OnIndexedFrequency\<close>; a record whose payload length equals the expected length minus
  one (the expected length not being zero) fails and latches the fault.
\<close>

theorem indexed_frequency_expected_length:
  assumes "Header_Guid event = kCallTraceEventClass D"
    and "Header_Class_Type event = TRACE_INDEXED_FREQUENCY"
    and "data = as_TraceIndexedFrequencyData (MofData event)"
    and "expected_length = frequency_size data * num_entries data +
           sizeof_TraceIndexedFrequencyData D - 1"
  shows "(MofLength event = expected_length \<and> sizeof_TraceIndexedFrequencyData D \<le> MofLength event \<longrightarrow>
            DispatchEvent D bn event s =
              (True, call_handler (OnIndexedFrequency (Header_TimeStamp event)
                       (Header_ProcessId event) (Header_ThreadId event) data) s)) \<and>
         (expected_length \<noteq> 0 \<and> MofLength event = expected_length - 1 \<longrightarrow>
            DispatchEvent D bn event s = (True, s\<lparr>error_occurred := True\<rparr>))"
proof (intro conjI impI)
  assume a: "MofLength event = expected_length \<and> sizeof_TraceIndexedFrequencyData D \<le> MofLength event"
  then have "unat (sizeof_TraceIndexedFrequencyData D) \<le> unat (MofLength event)"
    by (metis word_le_nat_alt)
  moreover have "\<not> MofLength event < sizeof_TraceIndexedFrequencyData D"
    using a leD by blast
  moreover have "\<not> MofLength event <
      frequency_size data * num_entries data + sizeof_TraceIndexedFrequencyData D - 1"
    using a assms(4) by simp
  ultimately show "DispatchEvent D bn event s =
              (True, call_handler (OnIndexedFrequency (Header_TimeStamp event)
                       (Header_ProcessId event) (Header_ThreadId event) data) s)"
    using assms(1,2)
    by (simp add: DispatchEvent_def DispatchEvent_switch_def DispatchIndexedFrequencyEvent_def
          Read_def new_reader_def Let_def assms(3) [symmetric])
next
  assume a: "expected_length \<noteq> 0 \<and> MofLength event = expected_length - 1"
  then have "MofLength event < expected_length"
    by (simp add: word_less_nat_alt unat_minus_one unat_gt_0)
  then have "MofLength event <
      frequency_size data * num_entries data + sizeof_TraceIndexedFrequencyData D - 1"
    using assms(4) by simp
  then show "DispatchEvent D bn event s = (True, s\<lparr>error_occurred := True\<rparr>)"
    using assms(1,2)
    by (simp add: DispatchEvent_def DispatchEvent_switch_def DispatchIndexedFrequencyEvent_def
          Read_def new_reader_def Let_def assms(3) [symmetric])
qed

text \<open>Ten entries of four bytes behind a structure of 28 bytes: 67 bytes are expected.\<close>

theorem indexed_frequency_expected_length_witness:
  "DispatchEvent sample_defs BaseName (freq_event 67 4 10) (new_ParseEngine ''engine'' False) =
     (True, call_handler (OnIndexedFrequency 1000 100 7 \<lparr>frequency_size = 4, num_entries = 10\<rparr>)
              (new_ParseEngine ''engine'' False)) \<and>
   DispatchEvent sample_defs BaseName (freq_event 66 4 10) (new_ParseEngine ''engine'' False) =
     (True, (new_ParseEngine ''engine'' False)\<lparr>error_occurred := True\<rparr>)"
proof
  have e: "(67 :: 32 word) = frequency_size \<lparr>frequency_size = 4, num_entries = 10\<rparr> *
           num_entries \<lparr>frequency_size = 4, num_entries = 10\<rparr> +
           sizeof_TraceIndexedFrequencyData sample_defs - 1"
    by (simp add: sample_defs_def)
  have g: "Header_Guid (freq_event len 4 10) = kCallTraceEventClass sample_defs" for len
    by (simp add: freq_event_def sample_event_def)
  have t: "Header_Class_Type (freq_event len 4 10) = TRACE_INDEXED_FREQUENCY" for len
    by (simp add: freq_event_def sample_event_def)
  have d: "\<lparr>frequency_size = 4, num_entries = 10\<rparr> =
           as_TraceIndexedFrequencyData (MofData (freq_event len 4 10))" for len
    by (simp add: freq_event_def sample_event_def)
  show "DispatchEvent sample_defs BaseName (freq_event 67 4 10) (new_ParseEngine ''engine'' False) =
     (True, call_handler (OnIndexedFrequency 1000 100 7 \<lparr>frequency_size = 4, num_entries = 10\<rparr>)
              (new_ParseEngine ''engine'' False))"
    using indexed_frequency_expected_length [OF g t d e, of 67 BaseName "new_ParseEngine ''engine'' False"]
    by (simp add: freq_event_def sample_event_def sample_defs_def)
  show "DispatchEvent sample_defs BaseName (freq_event 66 4 10) (new_ParseEngine ''engine'' False) =
     (True, (new_ParseEngine ''engine'' False)\<lparr>error_occurred := True\<rparr>)"
    using indexed_frequency_expected_length [OF g t d e, of 66 BaseName "new_ParseEngine ''engine'' False"]
    by (simp add: freq_event_def sample_event_def sample_defs_def)
qed

section \<open>Properties of the interval map\<close>

lemma intersects_sym: "intersects a b = intersects b a"
  by (auto simp: intersects_def)

lemma FindFirstIntersection_None:
  "FindFirstIntersection ms r = None \<longleftrightarrow> (\<forall>kv \<in> set ms. \<not> intersects (fst kv) r)"
  by (induction ms) (auto split: if_splits)

lemma FindFirstIntersection_Some:
  "FindFirstIntersection ms r = Some k \<Longrightarrow> k \<in> fst ` set ms \<and> intersects k r"
  by (induction ms) (auto split: if_splits)

lemma set_insert_entry: "set (insert_entry r v ms) = insert (r, v) (set ms)"
  by (induction ms) (auto split: if_splits)

lemma map_of_insert_entry:
  "r \<notin> fst ` set ms \<Longrightarrow> map_of (insert_entry r v ms) r = Some v"
  by (induction ms) auto

lemma FindFirstIntersection_insert_entry:
  "intersects r q \<Longrightarrow> \<forall>kv \<in> set ms. \<not> intersects (fst kv) q \<Longrightarrow>
   FindFirstIntersection (insert_entry r v ms) q = Some r"
  by (induction ms) auto

lemma map_of_key: "k \<in> fst ` set ms \<Longrightarrow> \<exists>v. map_of ms k = Some v"
  by (induction ms) auto

text \<open>The iterator that \<^verbatim>\<open>FindOrInsert\<close> returns points into the map.\<close>

lemma FindOrInsert_iter:
  "FindOrInsert ms r v = (b, ms', it) \<Longrightarrow> \<exists>x. deref ms' it = Some x"
proof (cases "FindFirstIntersection ms r")
  case None
  assume "FindOrInsert ms r v = (b, ms', it)"
  with None have "ms' = insert_entry r v ms" "it = r"
    by (auto simp: FindOrInsert_def)
  then have "it \<in> fst ` set ms'"
    by (simp add: set_insert_entry)
  then show ?thesis
    unfolding deref_def by (rule map_of_key)
next
  case (Some k)
  assume "FindOrInsert ms r v = (b, ms', it)"
  with Some have "ms' = ms" "it = k"
    by (auto simp: FindOrInsert_def)
  then have "it \<in> fst ` set ms'"
    using FindFirstIntersection_Some [OF Some] by simp
  then show ?thesis
    unfolding deref_def by (rule map_of_key)
qed

lemma all_disjoint_insert_entry:
  "all_disjoint ms \<Longrightarrow> \<forall>kv \<in> set ms. \<not> intersects (fst kv) r \<Longrightarrow>
   all_disjoint (insert_entry r v ms)"
  by (induction ms) (auto simp: list_all_iff set_insert_entry intersects_sym)

lemma all_disjoint_filter: "all_disjoint ms \<Longrightarrow> all_disjoint (filter P ms)"
  by (induction ms) (auto simp: list_all_iff)

lemma all_disjoint_map_values:
  "all_disjoint (map (\<lambda>kv. (fst kv, f kv)) ms) = all_disjoint ms"
  by (induction ms) (auto simp: list.pred_map comp_def)

lemma all_disjoint_set_dirty: "all_disjoint (set_dirty it ms) = all_disjoint ms"
proof -
  have "set_dirty it ms =
        map (\<lambda>kv. (fst kv, if fst kv = it then (snd kv)\<lparr>is_dirty := True\<rparr> else snd kv)) ms"
    by (simp add: set_dirty_def)
  then show ?thesis by (simp only: all_disjoint_map_values)
qed

lemma all_disjoint_FindOrInsert:
  "all_disjoint ms \<Longrightarrow> FindOrInsert ms r v = (b, ms', it) \<Longrightarrow> all_disjoint ms'"
  by (auto simp: FindOrInsert_def FindFirstIntersection_None all_disjoint_insert_entry
      split: option.splits)

lemma all_disjoint_evict_while_dirty:
  "all_disjoint ms \<Longrightarrow> evict_while_dirty r v ms it = (b, ms', it') \<Longrightarrow> all_disjoint ms'"
proof (induction r v ms it rule: evict_while_dirty.induct)
  case (1 rng new_module_info module_space iter)
  show ?case
  proof (cases "deref module_space iter")
    case None
    with "1.prems" show ?thesis by (simp add: evict_while_dirty.simps)
  next
    case (Some old)
    show ?thesis
    proof (cases "is_dirty old")
      case False
      with Some "1.prems" show ?thesis by (simp add: evict_while_dirty.simps)
    next
      case True
      obtain b1 ms1 it1 where
        f: "FindOrInsert (Remove module_space iter) rng new_module_info = (b1, ms1, it1)"
        by (metis prod_cases3)
      have d1: "all_disjoint ms1"
        using all_disjoint_FindOrInsert [OF _ f] "1.prems"(1)
        by (simp add: Remove_def all_disjoint_filter)
      show ?thesis
      proof (cases b1)
        case True
        with Some \<open>is_dirty old\<close> f "1.prems"(2) d1 show ?thesis
          by (simp add: evict_while_dirty.simps)
      next
        case False
        with Some \<open>is_dirty old\<close> f "1.prems"(2)
        have "evict_while_dirty rng new_module_info ms1 it1 = (b, ms', it')"
          by (simp add: evict_while_dirty.simps)
        moreover have "b1 = False" using False by simp
        ultimately show ?thesis
          using "1.IH" [OF Some \<open>is_dirty old\<close> f [symmetric] _ refl d1] by simp
      qed
    qed
  qed
qed

lemma all_disjoint_nth:
  "all_disjoint ms \<Longrightarrow> i < j \<Longrightarrow> j < length ms \<Longrightarrow> \<not> intersects (fst (ms ! i)) (fst (ms ! j))"
proof (induction ms arbitrary: i j)
  case Nil
  then show ?case by simp
next
  case (Cons kv ms)
  obtain k v where kv: "kv = (k, v)" by (cases kv)
  from Cons.prems(2) obtain j' where j: "j = Suc j'" by (cases j) auto
  show ?case
  proof (cases i)
    case 0
    have "ms ! j' \<in> set ms" using Cons.prems(3) j by simp
    with Cons.prems(1) kv show ?thesis
      using 0 j by (auto simp: list_all_iff)
  next
    case (Suc i')
    with Cons.IH [of i' j'] Cons.prems kv j show ?thesis by simp
  qed
qed

lemma all_disjoint_processes_at:
  assumes "\<And>ms. processes s pid = Some ms \<Longrightarrow> all_disjoint ms"
  shows "all_disjoint (processes_at s pid)"
  using assms by (cases "processes s pid") (auto simp: processes_at_def)

lemma AddModuleInformation_all_disjoint:
  assumes inv: "\<And>p ms. processes s p = Some ms \<Longrightarrow> all_disjoint ms"
    and p: "processes (snd (AddModuleInformation bn pid mi s)) p = Some ms"
  shows "all_disjoint ms"
proof -
  let ?rng = "Range (unat (base_address mi)) (unat (module_size mi))"
  have d0: "all_disjoint (processes_at s pid)"
    using inv by (rule all_disjoint_processes_at)
  obtain b1 ms1 it1 where
    f: "FindOrInsert (processes_at s pid) ?rng (annotate mi) = (b1, ms1, it1)"
    by (metis prod_cases3)
  have d1: "all_disjoint ms1"
    using all_disjoint_FindOrInsert [OF d0 f] .
  obtain b2 ms2 it2 where
    e: "evict_while_dirty ?rng (annotate mi) ms1 it1 = (b2, ms2, it2)"
    by (metis prod_cases3)
  have d2: "all_disjoint ms2"
    using all_disjoint_evict_while_dirty [OF d1 e] .
  show ?thesis
    using p d1 d2 inv [of p ms]
    by (cases b1; cases b2)
       (auto simp: AddModuleInformation_def Let_def f e store_space_def split: if_splits)
qed

lemma RemoveModuleInformation_all_disjoint:
  assumes inv: "\<And>p ms. processes s p = Some ms \<Longrightarrow> all_disjoint ms"
    and p: "processes (snd (RemoveModuleInformation pid mi s)) p = Some ms"
  shows "all_disjoint ms"
proof -
  have d0: "all_disjoint (processes_at s pid)"
    using inv by (rule all_disjoint_processes_at)
  show ?thesis
    using p d0 inv [of p ms] unfolding RemoveModuleInformation_def Let_def
    by (auto simp: store_space_def all_disjoint_set_dirty split: if_splits option.splits)
qed

lemma RemoveProcessInformation_all_disjoint:
  assumes inv: "\<And>p ms. processes s p = Some ms \<Longrightarrow> all_disjoint ms"
    and p: "processes (snd (RemoveProcessInformation pid s)) p = Some ms"
  shows "all_disjoint ms"
proof (cases "processes s pid")
  case None
  then show ?thesis using p inv [of p ms] by (simp add: RemoveProcessInformation_def)
next
  case (Some ms0)
  then have "all_disjoint ms0" using inv by simp
  then have "all_disjoint (map (\<lambda>kv. (fst kv, (snd kv)\<lparr>is_dirty := True\<rparr>)) ms0)"
    by (simp only: all_disjoint_map_values)
  with Some p inv [of p ms] show ?thesis
    by (auto simp: RemoveProcessInformation_def store_space_def split: if_splits)
qed

lemma reachable_all_disjoint:
  "reachable bn s \<Longrightarrow> processes s p = Some ms \<Longrightarrow> all_disjoint ms"
proof (induction arbitrary: p ms rule: reachable.induct)
  case (reachable_new nm fail)
  then show ?case by (simp add: new_ParseEngine_def)
next
  case (reachable_AddModule s process_id module_info)
  show ?case
    by (rule AddModuleInformation_all_disjoint
          [OF reachable_AddModule.IH reachable_AddModule.prems])
next
  case (reachable_RemoveModule s process_id module_info)
  show ?case
    by (rule RemoveModuleInformation_all_disjoint
          [OF reachable_RemoveModule.IH reachable_RemoveModule.prems])
next
  case (reachable_RemoveProcess s process_id)
  show ?case
    by (rule RemoveProcessInformation_all_disjoint
          [OF reachable_RemoveProcess.IH reachable_RemoveProcess.prems])
qed

lemma intersects_point:
  "0 < sz \<Longrightarrow> intersects k (Range b 1) \<Longrightarrow> intersects k (Range b sz)"
  by (auto simp: intersects_def range_end_def)

lemma intersects_self_point: "0 < sz \<Longrightarrow> intersects (Range b sz) (Range b 1)"
  by (simp add: intersects_def range_end_def)

lemma intersects_refl: "0 < sz \<Longrightarrow> intersects (Range b sz) (Range b sz)"
  by (simp add: intersects_def range_end_def)

text \<open>The definitions that evaluate the module tracking on concrete engines.\<close>

lemmas eval_defs = AddModuleInformation_def RemoveProcessInformation_def RemoveModuleInformation_def
  sample_info_def new_ParseEngine_def processes_at_def store_space_def FindOrInsert_def
  annotate_def deref_def Remove_def intersects_def range_end_def range_less_def
  same_module_except_path_def evict_while_dirty.simps BaseName_def Let_def

lemmas dispatch_module_defs = DispatchEvent_def DispatchEvent_switch_def DispatchModuleEvent_def
  module_event_def sample_event_def sample_defs_def sample_module_def zero_mof_data_def
  ModuleTraceDataToModuleInformation_def Read_def new_reader_def call_handler_def

lemma engine_after_reuse_space:
  "processes engine_after_reuse 50 =
     Some [(Range 0x2000 0x2000, annotate (sample_info 0x2000 0x2000 2 ''C:/b.dll'')),
           (Range 0x5000 0x1000, annotate (sample_info 0x5000 0x1000 3 ''C:/c.dll''))]"
  by (simp add: engine_after_reuse_def eval_defs)

section \<open>The invariant of the module spaces\<close>

text \<open>
  Claim C9. In every module space of an engine that \<^verbatim>\<open>AddModuleInformation\<close>,
  \<^verbatim>\<open>RemoveModuleInformation\<close> and \<^verbatim>\<open>RemoveProcessInformation\<close> produce from a new engine,
  two different entries that are both not dirty have ranges that do not overlap.
\<close>

theorem live_ranges_never_overlap:
  assumes "reachable bn s"
    and "processes s pid = Some ms"
    and "i < j" and "j < length ms"
    and "\<not> is_dirty (snd (ms ! i))" and "\<not> is_dirty (snd (ms ! j))"
  shows "\<not> intersects (fst (ms ! i)) (fst (ms ! j))"
  using all_disjoint_nth [OF reachable_all_disjoint [OF assms(1,2)] assms(3,4)] .

text \<open>The engine in which process id 50 was reused holds two live modules.\<close>

theorem live_ranges_never_overlap_witness:
  "reachable BaseName engine_after_reuse \<and>
   processes engine_after_reuse 50 =
     Some [(Range 0x2000 0x2000, annotate (sample_info 0x2000 0x2000 2 ''C:/b.dll'')),
           (Range 0x5000 0x1000, annotate (sample_info 0x5000 0x1000 3 ''C:/c.dll''))] \<and>
   \<not> intersects (Range 0x2000 0x2000) (Range 0x5000 0x1000)"
proof -
  have r: "reachable BaseName engine_after_reuse"
    unfolding engine_after_reuse_def
    by (intro reachable_AddModule reachable_RemoveProcess reachable_new)
  show ?thesis
    using r engine_after_reuse_space
      live_ranges_never_overlap [OF r engine_after_reuse_space, of 0 1]
    by (simp add: annotate_def)
qed

section \<open>Re-attaching after the end of a process\<close>

lemma filter_Remove_disjoint:
  assumes "intersects it rng"
  shows "filter (\<lambda>kv. \<not> intersects (fst kv) rng) (Remove ms it) =
         filter (\<lambda>kv. \<not> intersects (fst kv) rng) ms"
  using assms unfolding Remove_def by (induction ms) auto

lemma filter_no_intersection:
  "FindFirstIntersection ms rng = None \<Longrightarrow> filter (\<lambda>kv. \<not> intersects (fst kv) rng) ms = ms"
  by (simp add: FindFirstIntersection_None)

lemma evict_while_dirty_overlaps_dirty:
  assumes "\<forall>kv \<in> set ms. intersects (fst kv) rng \<longrightarrow> is_dirty (snd kv)"
    and "it \<in> fst ` set ms"
    and "intersects it rng"
  shows "evict_while_dirty rng new ms it =
           (True, insert_entry rng new (filter (\<lambda>kv. \<not> intersects (fst kv) rng) ms), rng)"
  using assms
proof (induction rng new ms it rule: evict_while_dirty.induct)
  case (1 rng new_module_info module_space iter)
  obtain old where d: "deref module_space iter = Some old"
    using map_of_key [OF "1.prems"(2)] by (auto simp: deref_def)
  then have "(iter, old) \<in> set module_space"
    by (simp add: deref_def map_of_SomeD)
  then have dirty: "is_dirty old"
    using "1.prems"(1,3) by fastforce
  let ?ms1 = "Remove module_space iter"
  have all1: "\<forall>kv \<in> set ?ms1. intersects (fst kv) rng \<longrightarrow> is_dirty (snd kv)"
    using "1.prems"(1) by (simp add: Remove_def)
  have flt: "filter (\<lambda>kv. \<not> intersects (fst kv) rng) ?ms1 =
             filter (\<lambda>kv. \<not> intersects (fst kv) rng) module_space"
    using filter_Remove_disjoint [OF "1.prems"(3)] .
  show ?case
  proof (cases "FindFirstIntersection ?ms1 rng")
    case None
    then have "FindOrInsert ?ms1 rng new_module_info =
               (True, insert_entry rng new_module_info ?ms1, rng)"
      by (simp add: FindOrInsert_def)
    moreover have "?ms1 = filter (\<lambda>kv. \<not> intersects (fst kv) rng) module_space"
      using filter_no_intersection [OF None] flt by simp
    ultimately show ?thesis
      using d dirty by (subst evict_while_dirty.simps) simp
  next
    case (Some k)
    then have f: "FindOrInsert ?ms1 rng new_module_info = (False, ?ms1, k)"
      by (simp add: FindOrInsert_def)
    have k: "k \<in> fst ` set ?ms1" "intersects k rng"
      using FindFirstIntersection_Some [OF Some] by auto
    have "evict_while_dirty rng new_module_info ?ms1 k =
            (True, insert_entry rng new_module_info
                     (filter (\<lambda>kv. \<not> intersects (fst kv) rng) ?ms1), rng)"
      using "1.IH" [OF d dirty f [symmetric] refl refl all1 k] .
    then show ?thesis
      using d dirty f flt by (subst evict_while_dirty.simps) simp
  qed
qed

lemma engine_with_live_module_space:
  "engine_with_live_module =
     store_space 50
       [(Range 0x1000 0x2000,
         (annotate (sample_info 0x1000 0x2000 1 ''C:/old/a.dll''))\<lparr>is_dirty := True\<rparr>),
        (Range 0x5000 0x1000, annotate (sample_info 0x5000 0x1000 3 ''C:/c.dll''))]
       (new_ParseEngine ''engine'' True)"
  by (simp add: engine_with_live_module_def engine_after_process_end_def eval_defs)

text \<open>
  Claim C8 says that, after a process end, an \<^verbatim>\<open>AddModuleInformation\<close> whose range overlaps
  a dirty entry evicts that entry and installs the new module, whatever the new module is.
  A module that differs from the dirty entry in the directory of its path only is taken for
  the same module: nothing is evicted, the entry stays dirty, and the lookup at the base
  address still returns the old module.
\<close>

theorem reattach_same_module_counterexample:
  "AddModuleInformation BaseName 50 (sample_info 0x1000 0x2000 1 ''D:/new/a.dll'')
     (engine_after_process_end ''C:/old/a.dll'') =
     (True, engine_after_process_end ''C:/old/a.dll'') \<and>
   processes (engine_after_process_end ''C:/old/a.dll'') 50 =
     Some [(Range 0x1000 0x2000,
            (annotate (sample_info 0x1000 0x2000 1 ''C:/old/a.dll''))\<lparr>is_dirty := True\<rparr>)] \<and>
   GetModuleInformation (engine_after_process_end ''C:/old/a.dll'') 50 0x1000 =
     Some (sample_info 0x1000 0x2000 1 ''C:/old/a.dll'') \<and>
   GetModuleInformation (engine_after_process_end ''C:/old/a.dll'') 50 0x1000 \<noteq>
     Some (sample_info 0x1000 0x2000 1 ''D:/new/a.dll'')"
  by (simp add: engine_after_process_end_def eval_defs GetModuleInformation_def
        as_ModuleInformation_def)

text \<open>
  Claim C8, amended. After a process end has marked the modules of a process dirty (right
  after \<^verbatim>\<open>RemoveProcessInformation\<close> every entry of the process is dirty), a later
  \<^verbatim>\<open>AddModuleInformation\<close> for that process with a module of non-zero size and non-empty
  path, whose range overlaps at least one stored entry, every stored entry it overlaps being
  dirty, and which does not match the first overlapping entry (on base, checksum, size,
  time stamp and base name of the path), evicts every entry that overlaps the new range,
  keeps the others, installs the new module, so that the lookup at its base address returns
  it, returns true and leaves the fault flag alone. The theorem holds for every engine in
  which the overlapped entries are dirty, however they became so.
\<close>

theorem reattach_evicts_dirty_entries:
  assumes "processes s pid = Some ms"
    and "module_size mi \<noteq> 0" and "path mi \<noteq> []"
    and "rng = Range (unat (base_address mi)) (unat (module_size mi))"
    and "FindFirstIntersection ms rng = Some k"
    and "deref ms k = Some old"
    and "\<not> same_module_except_path bn mi old"
    and "\<forall>kv \<in> set ms. intersects (fst kv) rng \<longrightarrow> is_dirty (snd kv)"
    and "ms' = insert_entry rng (annotate mi) (filter (\<lambda>kv. \<not> intersects (fst kv) rng) ms)"
  shows "AddModuleInformation bn pid mi s = (True, store_space pid ms' s) \<and>
         GetModuleInformation (store_space pid ms' s) pid (base_address mi) = Some mi \<and>
         (\<forall>kv \<in> set ms'. intersects (fst kv) rng \<longrightarrow> kv = (rng, annotate mi)) \<and>
         (\<forall>kv \<in> set ms. \<not> intersects (fst kv) rng \<longrightarrow> kv \<in> set ms') \<and>
         error_occurred (store_space pid ms' s) = error_occurred s \<and>
         (\<forall>s0 ms0. processes (snd (RemoveProcessInformation pid s0)) pid = Some ms0 \<longrightarrow>
            (\<forall>kv \<in> set ms0. is_dirty (snd kv)))"
proof -
  let ?flt = "filter (\<lambda>kv. \<not> intersects (fst kv) rng) ms"
  have sz: "0 < unat (module_size mi)"
    using assms(2) by (simp add: unat_gt_0)
  have at: "processes_at s pid = ms"
    using assms(1) by (simp add: processes_at_def)
  have foi: "FindOrInsert ms rng (annotate mi) = (False, ms, k)"
    using assms(5) by (simp add: FindOrInsert_def)
  have k: "k \<in> fst ` set ms" "intersects k rng"
    using FindFirstIntersection_Some [OF assms(5)] by auto
  have ev: "evict_while_dirty rng (annotate mi) ms k = (True, ms', rng)"
    using evict_while_dirty_overlaps_dirty [OF assms(8) k] assms(9) by simp
  have add: "AddModuleInformation bn pid mi s = (True, store_space pid ms' s)"
    using assms(2,3,6,7) foi ev
    by (simp add: AddModuleInformation_def Let_def at assms(4) [symmetric])
  have nokey: "rng \<notin> fst ` set ?flt"
    using intersects_refl [OF sz] by (auto simp: assms(4))
  have nopoint: "\<forall>kv \<in> set ?flt. \<not> intersects (fst kv) (Range (unat (base_address mi)) 1)"
    using intersects_point [OF sz] by (auto simp: assms(4))
  have self: "intersects rng (Range (unat (base_address mi)) 1)"
    unfolding assms(4) by (rule intersects_self_point [OF sz])
  have "FindFirstIntersection ms' (Range (unat (base_address mi)) 1) = Some rng"
    unfolding assms(9) by (rule FindFirstIntersection_insert_entry [OF self nopoint])
  moreover have "deref ms' rng = Some (annotate mi)"
    unfolding assms(9) deref_def by (rule map_of_insert_entry [OF nokey])
  ultimately have get: "GetModuleInformation (store_space pid ms' s) pid (base_address mi) = Some mi"
    by (simp add: GetModuleInformation_def store_space_def as_ModuleInformation_def annotate_def)
  have only: "\<forall>kv \<in> set ms'. intersects (fst kv) rng \<longrightarrow> kv = (rng, annotate mi)"
    by (auto simp: assms(9) set_insert_entry)
  have kept: "\<forall>kv \<in> set ms. \<not> intersects (fst kv) rng \<longrightarrow> kv \<in> set ms'"
    by (auto simp: assms(9) set_insert_entry)
  have dirty: "\<forall>s0 ms0. processes (snd (RemoveProcessInformation pid s0)) pid = Some ms0 \<longrightarrow>
            (\<forall>kv \<in> set ms0. is_dirty (snd kv))"
    by (auto simp: RemoveProcessInformation_def store_space_def split: option.splits)
  show ?thesis
    using add get only kept dirty by (simp add: store_space_def)
qed

text \<open>After the process end a live module is loaded at \<open>[0x5000, 0x6000)\<close>; a later module
  at \<open>[0x2000, 0x4000)\<close> overlaps the dirty entry only, which is evicted.\<close>

theorem reattach_evicts_dirty_entries_witness:
  "AddModuleInformation BaseName 50 (sample_info 0x2000 0x2000 2 ''C:/b.dll'')
     engine_with_live_module =
     (True, store_space 50
              [(Range 0x2000 0x2000, annotate (sample_info 0x2000 0x2000 2 ''C:/b.dll'')),
               (Range 0x5000 0x1000, annotate (sample_info 0x5000 0x1000 3 ''C:/c.dll''))]
              (new_ParseEngine ''engine'' True)) \<and>
   GetModuleInformation
     (store_space 50
        [(Range 0x2000 0x2000, annotate (sample_info 0x2000 0x2000 2 ''C:/b.dll'')),
         (Range 0x5000 0x1000, annotate (sample_info 0x5000 0x1000 3 ''C:/c.dll''))]
        (new_ParseEngine ''engine'' True)) 50 0x2000 =
     Some (sample_info 0x2000 0x2000 2 ''C:/b.dll'') \<and>
   GetModuleInformation
     (store_space 50
        [(Range 0x2000 0x2000, annotate (sample_info 0x2000 0x2000 2 ''C:/b.dll'')),
         (Range 0x5000 0x1000, annotate (sample_info 0x5000 0x1000 3 ''C:/c.dll''))]
        (new_ParseEngine ''engine'' True)) 50 0x5000 =
     Some (sample_info 0x5000 0x1000 3 ''C:/c.dll'')"
proof -
  let ?ms = "[(Range 0x1000 0x2000,
         (annotate (sample_info 0x1000 0x2000 1 ''C:/old/a.dll''))\<lparr>is_dirty := True\<rparr>),
        (Range 0x5000 0x1000, annotate (sample_info 0x5000 0x1000 3 ''C:/c.dll''))]"
  let ?ms' = "[(Range 0x2000 0x2000, annotate (sample_info 0x2000 0x2000 2 ''C:/b.dll'')),
               (Range 0x5000 0x1000, annotate (sample_info 0x5000 0x1000 3 ''C:/c.dll''))]"
  have p: "processes engine_with_live_module 50 = Some ?ms"
    by (simp add: engine_with_live_module_space store_space_def)
  have r: "AddModuleInformation BaseName 50 (sample_info 0x2000 0x2000 2 ''C:/b.dll'')
             engine_with_live_module =
           (True, store_space 50 ?ms' engine_with_live_module) \<and>
         GetModuleInformation (store_space 50 ?ms' engine_with_live_module)
              50 (base_address (sample_info 0x2000 0x2000 2 ''C:/b.dll'')) =
           Some (sample_info 0x2000 0x2000 2 ''C:/b.dll'')"
    using reattach_evicts_dirty_entries
      [OF p, of "sample_info 0x2000 0x2000 2 ''C:/b.dll''" "Range 0x2000 0x2000"
         "Range 0x1000 0x2000"
         "(annotate (sample_info 0x1000 0x2000 1 ''C:/old/a.dll''))\<lparr>is_dirty := True\<rparr>"
         BaseName ?ms']
    by (simp add: sample_info_def annotate_def deref_def intersects_def range_end_def
          range_less_def same_module_except_path_def)
  show ?thesis
    using r
    by (simp add: engine_with_live_module_space store_space_def sample_info_def
          GetModuleInformation_def deref_def intersects_def range_end_def annotate_def
          as_ModuleInformation_def new_ParseEngine_def)
qed

text \<open>The condition on the overlapped entries is needed: a module at \<open>[0x2000, 0x5800)\<close>
  overlaps the dirty entry and the live one; the dirty entry is evicted, the live one
  stays, and the add ends in the conflict of lines 128 to 136.\<close>

lemma reattach_over_live_entry_conflicts:
  "AddModuleInformation BaseName 50 (sample_info 0x2000 0x3800 2 ''C:/b.dll'')
     engine_with_live_module =
     (False, store_space 50
               [(Range 0x5000 0x1000, annotate (sample_info 0x5000 0x1000 3 ''C:/c.dll''))]
               (new_ParseEngine ''engine'' True)) \<and>
   GetModuleInformation
     (store_space 50
        [(Range 0x5000 0x1000, annotate (sample_info 0x5000 0x1000 3 ''C:/c.dll''))]
        (new_ParseEngine ''engine'' True)) 50 0x2000 = None"
  by (simp add: engine_with_live_module_space eval_defs GetModuleInformation_def)

section \<open>Removing a module that is not there\<close>

text \<open>
  Claim C3 says that \<^verbatim>\<open>RemoveModuleInformation\<close> leaves the whole engine unchanged when no
  stored range of the process intersects, also for a process id never seen. For such a
  process id \<^verbatim>\<open>processes_[process_id]\<close> enters the id into the map with an empty module
  space: the engine differs, and a later \<^verbatim>\<open>RemoveProcessInformation\<close> succeeds where it
  failed before.
\<close>

theorem RemoveModule_unseen_process_counterexample:
  "FindFirstIntersection (processes_at (new_ParseEngine ''engine'' False) 50)
     (Range (unat (base_address (sample_info 0x1000 0x2000 1 ''C:/a.dll'')))
            (unat (module_size (sample_info 0x1000 0x2000 1 ''C:/a.dll'')))) = None \<and>
   snd (RemoveModuleInformation 50 (sample_info 0x1000 0x2000 1 ''C:/a.dll'')
          (new_ParseEngine ''engine'' False)) \<noteq> new_ParseEngine ''engine'' False \<and>
   processes (new_ParseEngine ''engine'' False) 50 = None \<and>
   processes (snd (RemoveModuleInformation 50 (sample_info 0x1000 0x2000 1 ''C:/a.dll'')
          (new_ParseEngine ''engine'' False))) 50 = Some [] \<and>
   fst (RemoveProcessInformation 50 (new_ParseEngine ''engine'' False)) = False \<and>
   fst (RemoveProcessInformation 50
          (snd (RemoveModuleInformation 50 (sample_info 0x1000 0x2000 1 ''C:/a.dll'')
             (new_ParseEngine ''engine'' False)))) = True"
  by (simp add: eval_defs)

text \<open>
  Claim C3, amended. When no stored range of the process intersects the range of the module,
  \<^verbatim>\<open>RemoveModuleInformation\<close> returns true and leaves every module space that is in the
  process map, the handler, the fault flag and the configuration unchanged, so every lookup
  answers as before; when the process id is in the process map already (or the module has
  size zero or an empty path) the whole engine is unchanged.
\<close>

theorem RemoveModule_unknown_range:
  assumes "FindFirstIntersection (processes_at s pid)
             (Range (unat (base_address mi)) (unat (module_size mi))) = None"
    and "s' = snd (RemoveModuleInformation pid mi s)"
  shows "fst (RemoveModuleInformation pid mi s) = True \<and>
         (\<forall>p a. GetModuleInformation s' p a = GetModuleInformation s p a) \<and>
         (\<forall>p ms. processes s p = Some ms \<longrightarrow> processes s' p = Some ms) \<and>
         (\<forall>p. p \<noteq> pid \<longrightarrow> processes s' p = processes s p) \<and>
         event_handler s' = event_handler s \<and> error_occurred s' = error_occurred s \<and>
         fail_on_module_conflict s' = fail_on_module_conflict s \<and> name s' = name s \<and>
         (processes s pid \<noteq> None \<or> module_size mi = 0 \<or> path mi = [] \<longrightarrow> s' = s)"
proof (cases "module_size mi = 0 \<or> path mi = []")
  case True
  then have "RemoveModuleInformation pid mi s = (True, s)"
    by (auto simp: RemoveModuleInformation_def)
  then show ?thesis by (simp add: assms(2))
next
  case False
  then have r: "RemoveModuleInformation pid mi s = (True, store_space pid (processes_at s pid) s)"
    using assms(1) by (simp add: RemoveModuleInformation_def)
  show ?thesis
  proof (cases "processes s pid")
    case None
    then show ?thesis
      using False by (auto simp: assms(2) r store_space_def processes_at_def GetModuleInformation_def)
  next
    case (Some ms)
    then have "(processes s)(pid \<mapsto> ms) = processes s"
      by (simp add: map_upd_triv)
    then have "store_space pid (processes_at s pid) s = s"
      using Some by (simp add: store_space_def processes_at_def)
    then show ?thesis by (simp add: assms(2) r)
  qed
qed

theorem RemoveModule_unknown_range_witness:
  "fst (RemoveModuleInformation 50 (sample_info 0x5000 0x1000 3 ''C:/c.dll'')
          (engine_after_process_end ''C:/old/a.dll'')) = True \<and>
   snd (RemoveModuleInformation 50 (sample_info 0x5000 0x1000 3 ''C:/c.dll'')
          (engine_after_process_end ''C:/old/a.dll'')) = engine_after_process_end ''C:/old/a.dll''"
  using RemoveModule_unknown_range
    [of "engine_after_process_end ''C:/old/a.dll''" 50 "sample_info 0x5000 0x1000 3 ''C:/c.dll''"
        "snd (RemoveModuleInformation 50 (sample_info 0x5000 0x1000 3 ''C:/c.dll'')
          (engine_after_process_end ''C:/old/a.dll''))"]
  by (simp add: engine_after_process_end_def eval_defs)

section \<open>A module conflict under the strict policy\<close>

text \<open>\<^verbatim>\<open>AddModuleInformation\<close> does not touch the fault flag.\<close>

lemma AddModuleInformation_error_occurred:
  "error_occurred (snd (AddModuleInformation bn pid mi s)) = error_occurred s"
proof -
  let ?rng = "Range (unat (base_address mi)) (unat (module_size mi))"
  obtain b1 ms1 it1 where
    f: "FindOrInsert (processes_at s pid) ?rng (annotate mi) = (b1, ms1, it1)"
    by (metis prod_cases3)
  obtain b2 ms2 it2 where
    e: "evict_while_dirty ?rng (annotate mi) ms1 it1 = (b2, ms2, it2)"
    by (metis prod_cases3)
  show ?thesis
    by (cases b1; cases b2) (simp_all add: AddModuleInformation_def Let_def f e store_space_def)
qed

text \<open>Whatever \<^verbatim>\<open>AddModuleInformation\<close> returns, a process-attach event with a complete
  module record is dispatched with result true and an unchanged fault flag.\<close>

lemma process_attach_never_latches:
  assumes "Header_Guid event = kCallTraceEventClass D"
    and "Header_Class_Type event = TRACE_PROCESS_ATTACH_EVENT"
    and "sizeof_TraceModuleData D \<le> MofLength event"
  shows "fst (DispatchEvent D bn event s) = True \<and>
         error_occurred (snd (DispatchEvent D bn event s)) = error_occurred s"
  using assms
  by (simp add: DispatchEvent_def DispatchEvent_switch_def DispatchModuleEvent_def Read_def
        new_reader_def word_le_nat_alt Let_def call_handler_def AddModuleInformation_error_occurred)

text \<open>
  Claim C1 (the code departs from it). On an engine with \<^verbatim>\<open>fail_on_module_conflict\<close> set,
  a second process-attach event with the same base and size and another checksum makes
  \<^verbatim>\<open>AddModuleInformation\<close> return false, but \<^verbatim>\<open>DispatchModuleEvent\<close> drops that result:
  the dispatch returns true and \<open>error_occurred\<close> stays false.
\<close>

theorem strict_conflict_attach_does_not_latch:
  "fail_on_module_conflict engine_after_attach = True \<and>
   error_occurred engine_after_attach = False \<and>
   fst (AddModuleInformation BaseName 100
          (ModuleTraceDataToModuleInformation (sample_module 0x1000 0x2000 2 ''C:/a.dll''))
          engine_after_attach) = False \<and>
   fst (DispatchEvent sample_defs BaseName
          (module_event TRACE_PROCESS_ATTACH_EVENT 100 (sample_module 0x1000 0x2000 2 ''C:/a.dll''))
          engine_after_attach) = True \<and>
   error_occurred (snd (DispatchEvent sample_defs BaseName
          (module_event TRACE_PROCESS_ATTACH_EVENT 100 (sample_module 0x1000 0x2000 2 ''C:/a.dll''))
          engine_after_attach)) = False"
  by (simp add: engine_after_attach_def dispatch_module_defs eval_defs)

end
